theory Spec2Isabelle
  imports Complex_Main "HOL-Library.AList" "HOL-Library.List_Lexorder" "HOL-Library.Char_ord"
    "HOL-Library.Option_ord" "HOL-Library.Multiset"
begin

section \<open>The experiment organizer of \<^verbatim>\<open>hydra-proj/src/experiment_tracker.py\<close>\<close>

text \<open>
  The program walks the directory \<^verbatim>\<open>./outputs\<close>, reads JSON documents, builds a pandas
  table of the experiments it finds, writes it to \<^verbatim>\<open>experiment_index.csv\<close>, and answers
  queries on that table. Its functions are embedded here as HOL functions over an explicit
  world: the directory tree below \<^verbatim>\<open>./outputs\<close>, the clock and the lines printed so
  far. A raised exception is the \<open>Inl\<close> of a sum; the world reached when it was raised
  is returned with it.
\<close>

subsection \<open>Python values, documents and tables\<close>

text \<open>
  A value of a JSON object, as \<^verbatim>\<open>json.load\<close> returns it. \<open>JInt\<close> is a Python
  \<open>int\<close>: a number written without fraction and without exponent, of any size.
  \<open>JNum\<close> is a finite \<open>float\<close>, given by its exact value (every finite double is a
  rational number, and Python compares \<open>int\<close> with \<open>float\<close> exactly). \<open>JNested\<close> is
  an array or an object; the program never looks inside one. The constants
  \<^verbatim>\<open>NaN\<close> and \<^verbatim>\<open>Infinity\<close>, which \<^verbatim>\<open>json.load\<close> also accepts, and an \<open>int\<close>
  beyond the range of the doubles (\<open>2 ^ 1024\<close> and above) are outside the model.
\<close>

datatype jvalue = JNull | JBool bool | JInt int | JNum rat | JStr string | JNested

text \<open>The value of a number, of either kind.\<close>

fun number_value :: "jvalue \<Rightarrow> rat option" where
  "number_value (JInt n) = Some (of_int n)"
| "number_value (JNum x) = Some x"
| "number_value _ = None"

text \<open>
  A Python \<open>dict\<close> with string keys, in insertion order, each key once. \<open>map_of\<close>
  looks a key up and \<open>AList.update\<close> is \<^verbatim>\<open>d[k] = v\<close>: an existing key keeps its
  position, a new one goes last.
\<close>

type_synonym pydict = "(string \<times> jvalue) list"

text \<open>What \<^verbatim>\<open>json.load\<close> returns: an object (a \<open>dict\<close>), or any other JSON value.\<close>

datatype jdoc = JObject pydict | JOther

text \<open>
  A pandas \<open>DataFrame\<close>: its column labels and its rows. A row keeps the record it was
  built from; a column the record lacks reads as \<open>None\<close>, pandas' NaN. The type of a
  column and the values it stores are not kept in the table: where they matter, they are
  computed from the cells of the column (\<open>column_dtype\<close> and \<open>stored_value\<close> below).
\<close>

record dataframe =
  columns :: "string list"
  rows :: "pydict list"

datatype exn =
    FileNotFoundError | NotADirectoryError | IsADirectoryError
  | JSONDecodeError | ParserError | RegexError
  | AttributeError | TypeError | KeyError | IndexError | ValueError
  | SystemExit int

text \<open>
  A file is described by what the reader the program applies to it makes of its text:
  \<open>Json_text d\<close> is a text that \<^verbatim>\<open>json.load\<close> parses to \<open>d\<close>, \<open>Csv_text r\<close> a text
  on which \<^verbatim>\<open>pandas.read_csv\<close> gives \<open>r\<close>, \<open>Other_text\<close> a text neither reader
  accepts. A directory has its modification time (\<^verbatim>\<open>st_mtime\<close>, seconds since the epoch)
  and its entries in the order \<^verbatim>\<open>iterdir\<close> yields them. The tree holds regular files
  and directories only.
\<close>

datatype content = Json_text jdoc | Csv_text "exn + dataframe" | Other_text

datatype node = File content | Dir rat "(string \<times> node) list"

text \<open>
  One fragment of a formatted line (a literal text, an integer, a cell of a table, a cell
  under the format \<^verbatim>\<open>:.4f\<close>), and one call of \<^verbatim>\<open>print\<close>: of a formatted line, or of
  \<^verbatim>\<open>df.to_string(index=False)\<close>.
\<close>

datatype frag =
    Lit string
  | Num int
  | Val "jvalue option"
  | Val4f "jvalue option"

datatype out_item = Print "frag list" | Print_table dataframe

record world =
  outputs :: "node option"
  clock :: rat
  stdout :: "out_item list"

text \<open>
  Three behaviours of pandas are parameters of the model rather than definitions:
  \<open>str_contains pat s\<close> is \<^verbatim>\<open>Series.str.contains(pat, case=False)\<close> on one cell
  (a regular-expression search, \<open>regex=True\<close> being the default, that raises on a
  malformed pattern); \<open>csv_round_trip df\<close> is what \<^verbatim>\<open>read_csv\<close> makes of the text
  that \<^verbatim>\<open>to_csv(index=False)\<close> writes for \<open>df\<close> (column types are inferred anew);
  and \<open>sort_positions vals\<close> is the order in which
  \<^verbatim>\<open>Series.sort_values(ascending=False)\<close> lists the positions \<open>0, 1, ...\<close> of a column
  that stores the values \<open>vals\<close> (\<open>None\<close> is NaN). pandas sorts there with numpy's
  default sort, which is not stable: where equal values end up is left to the library.
\<close>

record lib =
  str_contains :: "string \<Rightarrow> string \<Rightarrow> exn + bool"
  csv_round_trip :: "dataframe \<Rightarrow> exn + dataframe"
  sort_positions :: "rat option list \<Rightarrow> nat list"

definition print :: "frag list \<Rightarrow> world \<Rightarrow> world" where
  "print fs w = w\<lparr>stdout := stdout w @ [Print fs]\<rparr>"

definition print_table :: "dataframe \<Rightarrow> world \<Rightarrow> world" where
  "print_table df w = w\<lparr>stdout := stdout w @ [Print_table df]\<rparr>"

subsection \<open>Paths and files\<close>

text \<open>\<^verbatim>\<open>Path("./outputs")\<close>, whose string is \<^verbatim>\<open>outputs\<close>, and \<^verbatim>\<open>p / name\<close>.\<close>

definition base_dir :: string where
  "base_dir = ''outputs''"

definition joinpath :: "string \<Rightarrow> string \<Rightarrow> string" where
  "joinpath p name = p @ ''/'' @ name"

fun is_dir :: "node \<Rightarrow> bool" where
  "is_dir (Dir _ _) = True"
| "is_dir (File _) = False"

definition startswith :: "string \<Rightarrow> string \<Rightarrow> bool" where
  "startswith s p = (take (length p) s = p)"

text \<open>\<^verbatim>\<open>self.base_dir.iterdir()\<close>: the entries of \<^verbatim>\<open>./outputs\<close>.\<close>

definition iterdir :: "node option \<Rightarrow> exn + (string \<times> node) list" where
  "iterdir base =
     (case base of
        None \<Rightarrow> Inl FileNotFoundError
      | Some (File _) \<Rightarrow> Inl NotADirectoryError
      | Some (Dir _ es) \<Rightarrow> Inr es)"

text \<open>\<^verbatim>\<open>with open(p) as f: json.load(f)\<close> on an entry that exists.\<close>

definition json_load :: "node \<Rightarrow> exn + jdoc" where
  "json_load nd =
     (case nd of
        Dir _ _ \<Rightarrow> Inl IsADirectoryError
      | File (Json_text d) \<Rightarrow> Inr d
      | File _ \<Rightarrow> Inl JSONDecodeError)"

subsection \<open>The index builder\<close>

text \<open>\<^verbatim>\<open>info.update(results)\<close>: the keys of \<open>results\<close> are set in \<open>info\<close>, in order.\<close>

definition dict_update :: "pydict \<Rightarrow> pydict \<Rightarrow> pydict" where
  "dict_update info results = fold (\<lambda>(k, v). AList.update k v) results info"

text \<open>
  \<^verbatim>\<open>_extract_experiment_info(exp_dir, info_file, results_file)\<close>, lines 53-66. The
  directory is given by its path, its name and its entries. An info document that is not
  an object has no \<open>update\<close> (AttributeError) and takes no item assignment (TypeError);
  a results document that is not an object is refused by \<open>update\<close> (an array of pairs
  and an empty array or string, which \<open>update\<close> accepts, are outside the model).
\<close>

definition extract_experiment_info ::
  "string \<Rightarrow> string \<Rightarrow> (string \<times> node) list \<Rightarrow> exn + pydict" where
  "extract_experiment_info path name es =
     (case map_of es ''experiment_info.json'' of
        None \<Rightarrow> Inl FileNotFoundError
      | Some info_file \<Rightarrow>
          (case json_load info_file of
             Inl e \<Rightarrow> Inl e
           | Inr info \<Rightarrow>
               (case (case map_of es ''results.json'' of
                        None \<Rightarrow> Inr info
                      | Some results_file \<Rightarrow>
                          (case json_load results_file of
                             Inl e \<Rightarrow> Inl e
                           | Inr results \<Rightarrow>
                               (case info of
                                  JOther \<Rightarrow> Inl AttributeError
                                | JObject d \<Rightarrow>
                                    (case results of
                                       JOther \<Rightarrow> Inl TypeError
                                     | JObject r \<Rightarrow> Inr (JObject (dict_update d r)))))) of
                  Inl e \<Rightarrow> Inl e
                | Inr JOther \<Rightarrow> Inl TypeError
                | Inr (JObject d) \<Rightarrow>
                    Inr (AList.update ''full_path'' (JStr path)
                          (AList.update ''folder_name'' (JStr name) d)))))"

text \<open>
  Line 33: the subdirectories named \<^verbatim>\<open>job_...\<close>; line 37: \<^verbatim>\<open>sorted\<close>, which compares
  sibling paths by their names, code point by code point (the order of the UTF-8 bytes),
  and is stable.
\<close>

definition job_dirs :: "(string \<times> node) list \<Rightarrow> (string \<times> node) list" where
  "job_dirs es = filter (\<lambda>(n, d). is_dir d \<and> startswith n ''job_'') es"

definition sorted_paths :: "(string \<times> node) list \<Rightarrow> (string \<times> node) list" where
  "sorted_paths ds = sort_key fst ds"

text \<open>The loop of lines 37-46 over the sorted job directories of one sweep parent.\<close>

fun index_jobs ::
  "string \<Rightarrow> string \<Rightarrow> (string \<times> node) list \<Rightarrow> pydict list \<Rightarrow> exn + pydict list" where
  "index_jobs ppath pname [] experiments = Inr experiments"
| "index_jobs ppath pname ((jname, File _) # rest) experiments =
     index_jobs ppath pname rest experiments"
| "index_jobs ppath pname ((jname, Dir _ jes) # rest) experiments =
     (if map_of jes ''experiment_info.json'' \<noteq> None then
        (case extract_experiment_info (joinpath ppath jname) jname jes of
           Inl e \<Rightarrow> Inl e
         | Inr info \<Rightarrow>
             index_jobs ppath pname rest
               (experiments @
                 [AList.update ''job_number'' (JStr jname)
                   (AList.update ''sweep_parent'' (JStr pname) info)]))
      else index_jobs ppath pname rest experiments)"

text \<open>The loop of lines 21-46 over the entries of \<^verbatim>\<open>./outputs\<close>.\<close>

fun index_dirs :: "(string \<times> node) list \<Rightarrow> pydict list \<Rightarrow> exn + pydict list" where
  "index_dirs [] experiments = Inr experiments"
| "index_dirs ((name, File _) # rest) experiments = index_dirs rest experiments"
| "index_dirs ((name, Dir _ es) # rest) experiments =
     (if map_of es ''experiment_info.json'' \<noteq> None then
        (case extract_experiment_info (joinpath base_dir name) name es of
           Inl e \<Rightarrow> Inl e
         | Inr info \<Rightarrow> index_dirs rest (experiments @ [info]))
      else if job_dirs es \<noteq> [] then
        (case index_jobs (joinpath base_dir name) name (sorted_paths (job_dirs es))
                experiments of
           Inl e \<Rightarrow> Inl e
         | Inr experiments' \<Rightarrow> index_dirs rest experiments')
      else index_dirs rest experiments)"

text \<open>
  \<^verbatim>\<open>pd.DataFrame(experiments)\<close>: the columns are the keys of the records, each at its
  first appearance.
\<close>

definition union_keys :: "pydict list \<Rightarrow> string list" where
  "union_keys ds =
     fold (\<lambda>d cols. fold (\<lambda>k cols. if k \<in> set cols then cols else cols @ [k]) (map fst d) cols)
       ds []"

definition DataFrame :: "pydict list \<Rightarrow> dataframe" where
  "DataFrame ds = \<lparr>columns = union_keys ds, rows = ds\<rparr>"

text \<open>\<^verbatim>\<open>df.to_csv(self.base_dir / "experiment_index.csv", index=False)\<close>.\<close>

definition to_csv :: "lib \<Rightarrow> dataframe \<Rightarrow> world \<Rightarrow> (exn + unit) \<times> world" where
  "to_csv lb df w =
     (case outputs w of
        Some (Dir m es) \<Rightarrow>
          (case map_of es ''experiment_index.csv'' of
             Some (Dir _ _) \<Rightarrow> (Inl IsADirectoryError, w)
           | _ \<Rightarrow>
             (Inr (),
              w\<lparr>outputs :=
                  Some (Dir m (AList.update ''experiment_index.csv''
                                 (File (Csv_text (csv_round_trip lb df))) es))\<rparr>))
      | _ \<Rightarrow> (Inl FileNotFoundError, w))"

text \<open>\<^verbatim>\<open>create_experiment_index\<close>, lines 17-51.\<close>

definition create_experiment_index :: "lib \<Rightarrow> world \<Rightarrow> (exn + dataframe) \<times> world" where
  "create_experiment_index lb w =
     (case iterdir (outputs w) of
        Inl e \<Rightarrow> (Inl e, w)
      | Inr es \<Rightarrow>
          (case index_dirs es [] of
             Inl e \<Rightarrow> (Inl e, w)
           | Inr experiments \<Rightarrow>
               (case to_csv lb (DataFrame experiments) w of
                  (Inl e, w') \<Rightarrow> (Inl e, w')
                | (Inr _, w') \<Rightarrow>
                    (Inr (DataFrame experiments),
                     print [Lit ''Created experiment index with '',
                            Num (int (length experiments)), Lit '' experiments''] w'))))"

subsection \<open>Tables\<close>

text \<open>A cell of a row; \<^verbatim>\<open>df[cols]\<close>; \<^verbatim>\<open>df[mask]\<close>; \<^verbatim>\<open>df.empty\<close>.\<close>

definition column_cells :: "string \<Rightarrow> dataframe \<Rightarrow> jvalue option list" where
  "column_cells c df = map (\<lambda>r. map_of r c) (rows df)"

definition get_cell :: "string \<Rightarrow> dataframe \<Rightarrow> pydict \<Rightarrow> exn + jvalue option" where
  "get_cell c df r = (if c \<in> set (columns df) then Inr (map_of r c) else Inl KeyError)"

definition select_columns :: "string list \<Rightarrow> dataframe \<Rightarrow> exn + dataframe" where
  "select_columns cols df =
     (if set cols \<subseteq> set (columns df)
      then Inr \<lparr>columns = cols, rows = map (filter (\<lambda>(k, v). k \<in> set cols)) (rows df)\<rparr>
      else Inl KeyError)"

definition select_rows :: "(pydict \<Rightarrow> bool) \<Rightarrow> dataframe \<Rightarrow> dataframe" where
  "select_rows p df = df\<lparr>rows := filter p (rows df)\<rparr>"

definition empty_frame :: "dataframe \<Rightarrow> bool" where
  "empty_frame df = (rows df = [] \<or> columns df = [])"

text \<open>
  The elementwise \<^verbatim>\<open>df[key] == value\<close>: a missing cell equals nothing, and \<open>True\<close>
  and \<open>False\<close> are the numbers 1 and 0.
\<close>

fun cell_number :: "jvalue option \<Rightarrow> rat option" where
  "cell_number (Some (JInt n)) = Some (of_int n)"
| "cell_number (Some (JNum x)) = Some x"
| "cell_number (Some (JBool b)) = Some (if b then 1 else 0)"
| "cell_number _ = None"

fun cell_string :: "jvalue option \<Rightarrow> string option" where
  "cell_string (Some (JStr s)) = Some s"
| "cell_string _ = None"

definition cell_eq :: "jvalue option \<Rightarrow> jvalue \<Rightarrow> bool" where
  "cell_eq c v =
     ((cell_number c \<noteq> None \<and> cell_number c = cell_number (Some v)) \<or>
      (cell_string c \<noteq> None \<and> cell_string c = cell_string (Some v)))"

definition isna :: "jvalue option \<Rightarrow> bool" where
  "isna c = (c = None \<or> c = Some JNull)"

text \<open>
  The type pandas gives a column of the table that \<^verbatim>\<open>pd.DataFrame(experiments)\<close> builds
  from the records. The cells of the column are scanned in row order
  (\<^verbatim>\<open>lib.maybe_convert_objects\<close>), noting what has been seen: \<open>None\<close> (a JSON
  \<^verbatim>\<open>null\<close>), NaN (the record lacks the key), a boolean, a float, an integer, an
  integer above the signed 64-bit range, a negative integer, and anything that makes the
  column one of Python objects. The scan stops at a string, at a nested value, and at
  an integer that lies outside both 64-bit ranges or that makes the column hold a
  negative integer together with one above the signed range; an integer that comes after
  a \<open>None\<close> is not checked.
\<close>

record seen =
  seen_null :: bool
  seen_nan :: bool
  seen_bool :: bool
  seen_float :: bool
  seen_int :: bool
  seen_uint :: bool
  seen_sint :: bool
  seen_object :: bool

definition seen_nothing :: seen where
  "seen_nothing =
     \<lparr>seen_null = False, seen_nan = False, seen_bool = False, seen_float = False,
      seen_int = False, seen_uint = False, seen_sint = False, seen_object = False\<rparr>"

fun scan_cells :: "jvalue option list \<Rightarrow> seen \<Rightarrow> seen" where
  "scan_cells [] s = s"
| "scan_cells (Some JNull # cells) s = scan_cells cells (s\<lparr>seen_null := True\<rparr>)"
| "scan_cells (None # cells) s = scan_cells cells (s\<lparr>seen_nan := True\<rparr>)"
| "scan_cells (Some (JBool b) # cells) s = scan_cells cells (s\<lparr>seen_bool := True\<rparr>)"
| "scan_cells (Some (JNum x) # cells) s = scan_cells cells (s\<lparr>seen_float := True\<rparr>)"
| "scan_cells (Some (JInt v) # cells) s =
     (if \<not> seen_null s then
        (let s' = s\<lparr>seen_int := True,
                    seen_sint := (seen_sint s \<or> (- (2 ^ 63) \<le> v \<and> v < 0)),
                    seen_uint := (seen_uint s \<or> (2 ^ 63 - 1 < v \<and> v \<le> 2 ^ 64 - 1))\<rparr>
         in
         if (seen_uint s' \<and> seen_sint s') \<or> 2 ^ 64 - 1 < v \<or> v < - (2 ^ 63)
         then s'\<lparr>seen_object := True\<rparr>
         else scan_cells cells s')
      else scan_cells cells (s\<lparr>seen_int := True\<rparr>))"
| "scan_cells (Some (JStr x) # cells) s = s\<lparr>seen_object := True\<rparr>"
| "scan_cells (Some JNested # cells) s = s\<lparr>seen_object := True\<rparr>"

datatype dtype = Dt_bool | Dt_int64 | Dt_uint64 | Dt_float64 | Dt_object

text \<open>
  The type chosen after the scan: \<open>bool\<close> when booleans and nothing else were seen;
  \<open>float64\<close> for numbers with a missing value among them, and for numbers with a float
  among them; \<open>int64\<close> or \<open>uint64\<close> for integers alone; \<open>object\<close> otherwise.
\<close>

definition column_dtype :: "jvalue option list \<Rightarrow> dtype" where
  "column_dtype cells =
     (let s = scan_cells cells seen_nothing in
      if seen_bool s then
        (if seen_null s \<or> seen_nan s \<or> seen_float s \<or> seen_int s \<or> seen_object s
         then Dt_object else Dt_bool)
      else if seen_object s then Dt_object
      else if seen_null s \<or> seen_nan s then
        (if seen_float s \<or> seen_int s \<or> seen_nan s then Dt_float64 else Dt_object)
      else if seen_float s then Dt_float64
      else if seen_int s then (if seen_uint s then Dt_uint64 else Dt_int64)
      else Dt_object)"

text \<open>
  The conversion of a Python \<open>int\<close> to a double, which rounds to 53 significant bits,
  to the nearest double and to the even one of two that are equally near:
  \<open>halvings a\<close> is the number of bits of \<open>a\<close> beyond 53.
\<close>

function halvings :: "nat \<Rightarrow> nat" where
  "halvings a = (if a < 2 ^ 53 then 0 else Suc (halvings (a div 2)))"
  by pat_completeness auto
termination
  by (relation "measure id") auto

declare halvings.simps [simp del]

definition float64_of_int :: "int \<Rightarrow> rat" where
  "float64_of_int v =
     (let a = nat \<bar>v\<bar>;
          e = halvings a;
          q = a div 2 ^ e;
          r = a mod 2 ^ e;
          q' = (if 2 ^ e < 2 * r \<or> (2 * r = 2 ^ e \<and> odd q) then q + 1 else q)
      in of_int (sgn v * int (q' * 2 ^ e)))"

text \<open>
  The value a column of the given type stores for a cell, \<open>None\<close> being NaN: in a
  \<open>float64\<close> column an integer is converted to a double and a missing value is NaN; an
  integer column stores the integers themselves; \<open>True\<close> and \<open>False\<close> rank as 1 and 0.
\<close>

fun stored_value :: "dtype \<Rightarrow> jvalue option \<Rightarrow> rat option" where
  "stored_value Dt_float64 (Some (JNum x)) = Some x"
| "stored_value Dt_float64 (Some (JInt v)) = Some (float64_of_int v)"
| "stored_value Dt_int64 (Some (JInt v)) = Some (of_int v)"
| "stored_value Dt_uint64 (Some (JInt v)) = Some (of_int v)"
| "stored_value Dt_bool (Some (JBool b)) = Some (if b then 1 else 0)"
| "stored_value _ _ = None"

text \<open>
  Descending order that keeps rows with equal keys in their original order: the list is
  reversed, sorted by a stable ascending sort, and reversed again. A missing key
  (\<open>None\<close>, below every \<open>Some\<close>) goes last.
\<close>

definition sort_desc :: "('a \<Rightarrow> 'k::linorder) \<Rightarrow> 'a list \<Rightarrow> 'a list" where
  "sort_desc f xs = rev (sort_key f (rev xs))"

text \<open>
  \<^verbatim>\<open>df.nlargest(n, column)\<close> with the default \<open>keep='first'\<close>
  (\<^verbatim>\<open>SelectNSeries.compute\<close>). A column of dtype \<open>object\<close> is refused. The rows are
  ranked by the values the column stores. When \<open>n\<close> is below the number of rows, the
  result is the first \<open>n\<close> rows of the descending order that a stable sort gives: equal
  values in their original order, NaN last. When \<open>n\<close> is at least the number of rows,
  the result is \<^verbatim>\<open>sort_values(ascending=False).head(n)\<close>: the rows at the positions
  that the library's sort lists.
\<close>

definition nlargest :: "lib \<Rightarrow> int \<Rightarrow> string \<Rightarrow> dataframe \<Rightarrow> exn + dataframe" where
  "nlargest lb n c df =
     (if c \<notin> set (columns df) then Inl KeyError
      else
        (let dt = column_dtype (column_cells c df);
             key = (\<lambda>r. stored_value dt (map_of r c))
         in
         if dt = Dt_object then Inl TypeError
         else if n \<le> 0 then Inr (df\<lparr>rows := []\<rparr>)
         else if length (rows df) \<le> nat n then
           Inr (df\<lparr>rows :=
                     take (nat n)
                       (map (\<lambda>i. rows df ! i)
                          (filter (\<lambda>i. i < length (rows df))
                             (sort_positions lb (map key (rows df)))))\<rparr>)
         else Inr (df\<lparr>rows := take (nat n) (sort_desc key (rows df))\<rparr>)))"

text \<open>
  \<^verbatim>\<open>df.sort_values(column, ascending=False)\<close>: numbers and booleans compare with each
  other, strings with strings, anything else raises. pandas leaves the order of equal
  values open here (its default sort is not stable); the model keeps their order.
\<close>

definition sort_values_desc :: "string \<Rightarrow> dataframe \<Rightarrow> exn + dataframe" where
  "sort_values_desc c df =
     (if c \<notin> set (columns df) then Inl KeyError
      else if list_all (\<lambda>x. isna x \<or> cell_number x \<noteq> None) (column_cells c df)
        then Inr (df\<lparr>rows := sort_desc (\<lambda>r. cell_number (map_of r c)) (rows df)\<rparr>)
      else if list_all (\<lambda>x. isna x \<or> cell_string x \<noteq> None) (column_cells c df)
        then Inr (df\<lparr>rows := sort_desc (\<lambda>r. cell_string (map_of r c)) (rows df)\<rparr>)
      else Inl TypeError)"

text \<open>\<^verbatim>\<open>series.dropna().unique()\<close>: the values present, each at its first appearance.\<close>

definition dropna :: "jvalue option list \<Rightarrow> jvalue list" where
  "dropna cells = List.map_filter (\<lambda>c. if isna c then None else c) cells"

definition unique :: "'a list \<Rightarrow> 'a list" where
  "unique xs = rev (remdups (rev xs))"

text \<open>\<^verbatim>\<open>pd.read_csv(self.base_dir / "experiment_index.csv")\<close>.\<close>

definition read_csv :: "world \<Rightarrow> exn + dataframe" where
  "read_csv w =
     (case outputs w of
        None \<Rightarrow> Inl FileNotFoundError
      | Some (File _) \<Rightarrow> Inl NotADirectoryError
      | Some (Dir _ es) \<Rightarrow>
          (case map_of es ''experiment_index.csv'' of
             None \<Rightarrow> Inl FileNotFoundError
           | Some (Dir _ _) \<Rightarrow> Inl IsADirectoryError
           | Some (File (Csv_text r)) \<Rightarrow> r
           | Some (File _) \<Rightarrow> Inl ParserError))"

definition newline :: string where
  "newline = [CHR 0x0A]"

definition quote :: string where
  "quote = [CHR 0x27]"

subsection \<open>Queries on the persisted index\<close>

text \<open>
  \<^verbatim>\<open>find_experiments(**filters)\<close>, lines 68-82; the keyword arguments are given in
  order.
\<close>

definition find_experiments :: "(string \<times> jvalue) list \<Rightarrow> world \<Rightarrow> exn + dataframe" where
  "find_experiments filters w =
     (case read_csv w of
        Inl e \<Rightarrow> Inl e
      | Inr df0 \<Rightarrow>
          (let df = fold (\<lambda>(key, v) df.
                       if key \<in> set (columns df)
                       then select_rows (\<lambda>r. cell_eq (map_of r key) v) df else df)
                     filters df0;
               display_cols =
                 [''folder_name'', ''model'', ''dataset'', ''lr'', ''best_accuracy''] @
                 (if ''sweep_parent'' \<in> set (columns df)
                  then [''sweep_parent'', ''job_number''] else []);
               available_cols = filter (\<lambda>col. col \<in> set (columns df)) display_cols
           in select_columns available_cols df))"

text \<open>Lines 129-134 of \<^verbatim>\<open>analyze_sweep\<close>: the report of the first row.\<close>

definition fmt4f :: "jvalue option \<Rightarrow> exn + frag" where
  "fmt4f c =
     (case c of
        None \<Rightarrow> Inr (Val4f c)
      | Some (JInt _) \<Rightarrow> Inr (Val4f c)
      | Some (JNum _) \<Rightarrow> Inr (Val4f c)
      | Some (JBool _) \<Rightarrow> Inr (Val4f c)
      | Some (JStr _) \<Rightarrow> Inl ValueError
      | Some _ \<Rightarrow> Inl TypeError)"

definition best_configuration :: "dataframe \<Rightarrow> world \<Rightarrow> (exn + dataframe) \<times> world" where
  "best_configuration sweep_results w =
     (case rows sweep_results of
        [] \<Rightarrow> (Inl IndexError, w)
      | best_run # _ \<Rightarrow>
          (let w1 = print [Lit newline, Lit ''Best configuration:''] w in
           case get_cell ''job_number'' sweep_results best_run of
             Inl e \<Rightarrow> (Inl e, w1)
           | Inr job \<Rightarrow>
               (let w2 = print [Lit ''  Job: '', Val job] w1 in
                case fmt4f (map_of best_run ''best_accuracy'') of
                  Inl e \<Rightarrow> (Inl e, w2)
                | Inr acc \<Rightarrow>
                    (let w3 = print [Lit ''  Accuracy: '', acc] w2 in
                     case get_cell ''full_path'' sweep_results best_run of
                       Inl e \<Rightarrow> (Inl e, w3)
                     | Inr path \<Rightarrow>
                         (Inr sweep_results, print [Lit ''  Path: '', Val path] w3)))))"

text \<open>\<^verbatim>\<open>analyze_sweep(sweep_name)\<close>, lines 108-142.\<close>

definition analyze_sweep :: "string \<Rightarrow> world \<Rightarrow> (exn + dataframe) \<times> world" where
  "analyze_sweep sweep_name w =
     (case read_csv w of
        Inl e \<Rightarrow> (Inl e, w)
      | Inr df \<Rightarrow>
          if ''sweep_parent'' \<in> set (columns df) then
            (let sweep_results =
                   select_rows (\<lambda>r. cell_eq (map_of r ''sweep_parent'') (JStr sweep_name)) df
             in
             if \<not> empty_frame sweep_results then
               (let w1 = print [Lit newline, Lit ''Parameter Sweep Analysis: '', Lit sweep_name] w;
                    w2 = print [Lit (replicate 50 CHR ''='')] w1
                in
                case (if ''best_accuracy'' \<in> set (columns sweep_results)
                      then sort_values_desc ''best_accuracy'' sweep_results
                      else Inr sweep_results) of
                  Inl e \<Rightarrow> (Inl e, w2)
                | Inr sorted_results \<Rightarrow>
                    (case select_columns
                            (filter (\<lambda>col. col \<in> set (columns sorted_results))
                               [''job_number'', ''lr'', ''batch_size'', ''best_accuracy''])
                            sorted_results of
                       Inl e \<Rightarrow> (Inl e, w2)
                     | Inr shown \<Rightarrow>
                         if ''best_accuracy'' \<in> set (columns sorted_results)
                         then best_configuration sorted_results (print_table shown w2)
                         else (Inr sorted_results, print_table shown w2)))
             else
               (Inr (DataFrame []),
                print [Lit ''No sweep results found for: '', Lit sweep_name] w))
          else
            (Inr (DataFrame []),
             print [Lit ''No parameter sweep data found in experiment index''] w))"

text \<open>
  \<^verbatim>\<open>list_sweeps\<close>, lines 144-157. Both branches of its \<open>if\<close> return, so the statements
  that follow in the same body (lines 158-180: a docstring and the code that clears and
  creates the symbolic links of \<^verbatim>\<open>outputs/shortcuts\<close>) are never executed; no
  \<^verbatim>\<open>def create_shortcuts\<close> line precedes them.
\<close>

definition list_sweeps :: "world \<Rightarrow> (exn + jvalue list) \<times> world" where
  "list_sweeps w =
     (case read_csv w of
        Inl e \<Rightarrow> (Inl e, w)
      | Inr df \<Rightarrow>
          if ''sweep_parent'' \<in> set (columns df) then
            (let sweeps = unique (dropna (column_cells ''sweep_parent'' df));
                 w1 = print [Lit ''Found '', Num (int (length sweeps)),
                             Lit '' parameter sweeps:''] w
             in
             (Inr sweeps,
              fold (\<lambda>sweep.
                      print [Lit ''  '', Val (Some sweep), Lit '' ('',
                             Num (int (length (filter
                                    (\<lambda>r. cell_eq (map_of r ''sweep_parent'') sweep) (rows df)))),
                             Lit '' jobs)''])
                sweeps w1))
          else (Inr [], print [Lit ''No parameter sweep data found''] w))"

subsection \<open>Retention cleanup\<close>

text \<open>
  The float literal \<^verbatim>\<open>0.9\<close>: the double nearest to nine tenths,
  \<^verbatim>\<open>0x1.ccccccccccccdp-1\<close>. The text \<^verbatim>\<open>0.9\<close> of a JSON document is read as the
  same double.
\<close>

definition float_0_9 :: rat where
  "float_0_9 = 8106479329266893 / 9007199254740992"

text \<open>
  Lines 93-100: whether \<^verbatim>\<open>results.json\<close>, directly inside the directory, says to keep
  it. \<^verbatim>\<open>results.get('best_accuracy', 0) > 0.9\<close> needs an object, and a number or a
  boolean to compare (\<open>True\<close> is 1 and \<open>False\<close> is 0).
\<close>

definition keep_experiment :: "(string \<times> node) list \<Rightarrow> exn + bool" where
  "keep_experiment es =
     (case map_of es ''results.json'' of
        None \<Rightarrow> Inr False
      | Some results_file \<Rightarrow>
          (case json_load results_file of
             Inl e \<Rightarrow> Inl e
           | Inr JOther \<Rightarrow> Inl AttributeError
           | Inr (JObject results) \<Rightarrow>
               (case (case map_of results ''best_accuracy'' of None \<Rightarrow> JInt 0 | Some v \<Rightarrow> v) of
                  JInt n \<Rightarrow> Inr (of_int n > float_0_9)
                | JNum x \<Rightarrow> Inr (x > float_0_9)
                | JBool b \<Rightarrow> Inr b
                | _ \<Rightarrow> Inl TypeError)))"

definition lookup_entry :: "string \<Rightarrow> world \<Rightarrow> node option" where
  "lookup_entry name w = (case outputs w of Some (Dir _ es) \<Rightarrow> map_of es name | _ \<Rightarrow> None)"

text \<open>\<^verbatim>\<open>shutil.rmtree(exp_dir)\<close>: the entry goes, with everything below it.\<close>

definition rmtree :: "string \<Rightarrow> world \<Rightarrow> world" where
  "rmtree name w =
     (case outputs w of
        Some (Dir m es) \<Rightarrow> w\<lparr>outputs := Some (Dir m (AList.delete name es))\<rparr>
      | _ \<Rightarrow> w)"

text \<open>
  The loop of lines 89-104 over the names \<^verbatim>\<open>iterdir\<close> listed; \<^verbatim>\<open>is_dir\<close> and
  \<^verbatim>\<open>stat\<close> look each name up in the tree as it is by then.
\<close>

fun cleanup_loop :: "rat \<Rightarrow> string list \<Rightarrow> nat \<Rightarrow> world \<Rightarrow> (exn + nat) \<times> world" where
  "cleanup_loop cutoff [] removed w = (Inr removed, w)"
| "cleanup_loop cutoff (name # rest) removed w =
     (case lookup_entry name w of
        Some (Dir mtime es) \<Rightarrow>
          if mtime < cutoff then
            (case keep_experiment es of
               Inl e \<Rightarrow> (Inl e, w)
             | Inr True \<Rightarrow>
                 cleanup_loop cutoff rest removed
                   (print [Lit ''Keeping high-performing experiment: '', Lit name] w)
             | Inr False \<Rightarrow>
                 cleanup_loop cutoff rest (removed + 1)
                   (rmtree name (print [Lit ''Removing old experiment: '', Lit name] w)))
          else cleanup_loop cutoff rest removed w
      | _ \<Rightarrow> cleanup_loop cutoff rest removed w)"

text \<open>
  \<^verbatim>\<open>cleanup_old_experiments(keep_days=30)\<close>, lines 84-106. The clock of the world is
  \<^verbatim>\<open>datetime.now().timestamp()\<close>; for a whole number of days the float subtraction of
  line 86 is exact.
\<close>

definition cleanup_old_experiments :: "rat \<Rightarrow> world \<Rightarrow> (exn + unit) \<times> world" where
  "cleanup_old_experiments keep_days w =
     (let cutoff = clock w - keep_days * 24 * 3600 in
      case iterdir (outputs w) of
        Inl e \<Rightarrow> (Inl e, w)
      | Inr es \<Rightarrow>
          (case cleanup_loop cutoff (map fst es) 0 w of
             (Inl e, w') \<Rightarrow> (Inl e, w')
           | (Inr removed, w') \<Rightarrow>
               (Inr (), print [Lit ''Removed '', Num (int removed), Lit '' old experiments''] w')))"

subsection \<open>The command-line functions\<close>

text \<open>\<^verbatim>\<open>list_experiments()\<close>, lines 183-194.\<close>

definition list_experiments :: "lib \<Rightarrow> world \<Rightarrow> (exn + unit) \<times> world" where
  "list_experiments lb w =
     (case create_experiment_index lb w of
        (Inl e, w1) \<Rightarrow> (Inl e, w1)
      | (Inr df, w1) \<Rightarrow>
          if \<not> empty_frame df then
            (case select_columns
                    (filter (\<lambda>col. col \<in> set (columns df))
                       [''folder_name'', ''model'', ''dataset'', ''lr'', ''best_accuracy'',
                        ''timestamp''])
                    df of
               Inl e \<Rightarrow> (Inl e, w1)
             | Inr shown \<Rightarrow> (Inr (), print_table shown w1))
          else (Inr (), print [Lit ''No experiments found''] w1))"

text \<open>\<^verbatim>\<open>find_best_experiments(metric='best_accuracy', top_n=5)\<close>, lines 196-206.\<close>

definition find_best_experiments ::
  "lib \<Rightarrow> string \<Rightarrow> int \<Rightarrow> world \<Rightarrow> (exn + unit) \<times> world" where
  "find_best_experiments lb metric top_n w =
     (case create_experiment_index lb w of
        (Inl e, w1) \<Rightarrow> (Inl e, w1)
      | (Inr df, w1) \<Rightarrow>
          if metric \<in> set (columns df) then
            (case nlargest lb top_n metric df of
               Inl e \<Rightarrow> (Inl e, w1)
             | Inr top_experiments \<Rightarrow>
                 (let w2 = print [Lit newline, Lit ''Top '', Num top_n,
                                  Lit '' experiments by '', Lit metric, Lit '':''] w1
                  in
                  case select_columns [''folder_name'', ''model'', ''dataset'', metric]
                         top_experiments of
                    Inl e \<Rightarrow> (Inl e, w2)
                  | Inr shown \<Rightarrow> (Inr (), print_table shown w2)))
          else
            (Inr (), print [Lit ''Metric '', Lit quote, Lit metric, Lit quote,
                            Lit '' not found''] w1))"

text \<open>
  The mask of line 213, cell by cell. A cell that is not a string gives a missing value
  in the mask, which the indexing \<^verbatim>\<open>df[mask]\<close> refuses.
\<close>

fun contains_mask :: "lib \<Rightarrow> string \<Rightarrow> jvalue option list \<Rightarrow> exn + bool list" where
  "contains_mask lb pat [] = Inr []"
| "contains_mask lb pat (Some (JStr s) # cs) =
     (case str_contains lb pat s of
        Inl e \<Rightarrow> Inl e
      | Inr b \<Rightarrow>
          (case contains_mask lb pat cs of
             Inl e \<Rightarrow> Inl e
           | Inr bs \<Rightarrow> Inr (b # bs)))"
| "contains_mask lb pat (_ # cs) = Inl ValueError"

text \<open>\<^verbatim>\<open>quick_cd(partial_name)\<close>, lines 208-222.\<close>

definition quick_cd :: "lib \<Rightarrow> string \<Rightarrow> world \<Rightarrow> (exn + unit) \<times> world" where
  "quick_cd lb partial_name w =
     (case create_experiment_index lb w of
        (Inl e, w1) \<Rightarrow> (Inl e, w1)
      | (Inr df, w1) \<Rightarrow>
          if ''folder_name'' \<notin> set (columns df) then (Inl KeyError, w1)
          else
            (case contains_mask lb partial_name (column_cells ''folder_name'' df) of
               Inl e \<Rightarrow> (Inl e, w1)
             | Inr hits \<Rightarrow>
                 (let matches = df\<lparr>rows := map snd (filter fst (zip hits (rows df)))\<rparr> in
                  case rows matches of
                    [first] \<Rightarrow>
                      (case get_cell ''full_path'' matches first of
                         Inl e \<Rightarrow> (Inl e, w1)
                       | Inr path \<Rightarrow> (Inr (), print [Lit ''cd '', Val path] w1))
                  | _ # _ # _ \<Rightarrow>
                      (let w2 = print [Lit ''Multiple matches found:''] w1 in
                       case select_columns [''folder_name'', ''model'', ''dataset''] matches of
                         Inl e \<Rightarrow> (Inl e, w2)
                       | Inr shown \<Rightarrow> (Inr (), print_table shown w2))
                  | [] \<Rightarrow>
                      (Inr (), print [Lit ''No experiments found matching '', Lit quote,
                                      Lit partial_name, Lit quote] w1))))"

subsection \<open>The command line\<close>

text \<open>
  A call \<^verbatim>\<open>organizer.name(args)\<close> on the instance, with positional arguments. The class
  body (lines 13-180) defines \<^verbatim>\<open>__init__\<close>, \<^verbatim>\<open>create_experiment_index\<close>,
  \<^verbatim>\<open>_extract_experiment_info\<close>, \<^verbatim>\<open>find_experiments\<close>, \<^verbatim>\<open>cleanup_old_experiments\<close>,
  \<^verbatim>\<open>analyze_sweep\<close> and \<^verbatim>\<open>list_sweeps\<close>, and nothing else. The table holds the five
  public ones (the constructor and the helper are not called by name); a name that the
  class does not define raises AttributeError, a wrong number of arguments TypeError.
\<close>

definition discard :: "(exn + 'a) \<times> world \<Rightarrow> (exn + unit) \<times> world" where
  "discard r = (case r of (Inl e, w) \<Rightarrow> (Inl e, w) | (Inr _, w) \<Rightarrow> (Inr (), w))"

definition organizer_methods ::
  "(string \<times> (lib \<Rightarrow> string list \<Rightarrow> world \<Rightarrow> (exn + unit) \<times> world)) list" where
  "organizer_methods =
     [(''create_experiment_index'',
         \<lambda>lb args w. case args of [] \<Rightarrow> discard (create_experiment_index lb w)
                      | _ \<Rightarrow> (Inl TypeError, w)),
      (''find_experiments'',
         \<lambda>lb args w. case args of [] \<Rightarrow> discard (find_experiments [] w, w)
                      | _ \<Rightarrow> (Inl TypeError, w)),
      (''cleanup_old_experiments'',
         \<lambda>lb args w. case args of [] \<Rightarrow> cleanup_old_experiments 30 w
                      | _ \<Rightarrow> (Inl TypeError, w)),
      (''analyze_sweep'',
         \<lambda>lb args w. case args of [sweep_name] \<Rightarrow> discard (analyze_sweep sweep_name w)
                      | _ \<Rightarrow> (Inl TypeError, w)),
      (''list_sweeps'',
         \<lambda>lb args w. case args of [] \<Rightarrow> discard (list_sweeps w)
                      | _ \<Rightarrow> (Inl TypeError, w))]"

definition call_method :: "string \<Rightarrow> lib \<Rightarrow> string list \<Rightarrow> world \<Rightarrow> (exn + unit) \<times> world" where
  "call_method name lb args w =
     (case map_of organizer_methods name of
        None \<Rightarrow> (Inl AttributeError, w)
      | Some m \<Rightarrow> m lb args w)"

definition usage :: string where
  "usage = ''Usage: python experiment_organizer.py [list|find_best|cd|cleanup|shortcuts|sweeps|analyze_sweep]''"

text \<open>
  The script body, lines 225-250. \<open>argv\<close> is \<^verbatim>\<open>sys.argv\<close>, the script name first.
  \<^verbatim>\<open>sys.exit(1)\<close> raises \<open>SystemExit 1\<close>.
\<close>

definition main :: "lib \<Rightarrow> string list \<Rightarrow> world \<Rightarrow> (exn + unit) \<times> world" where
  "main lb argv w =
     (if length argv < 2 then (Inl (SystemExit 1), print [Lit usage] w)
      else
        (let command = argv ! 1 in
         if command = ''list'' then list_experiments lb w
         else if command = ''find_best'' then find_best_experiments lb ''best_accuracy'' 5 w
         else if command = ''cd'' \<and> length argv > 2 then quick_cd lb (argv ! 2) w
         else if command = ''cleanup'' then call_method ''cleanup_old_experiments'' lb [] w
         else if command = ''shortcuts'' then call_method ''create_shortcuts'' lb [] w
         else if command = ''sweeps'' then call_method ''list_sweeps'' lb [] w
         else if command = ''analyze_sweep'' \<and> length argv > 2
           then call_method ''analyze_sweep'' lb [argv ! 2] w
         else (Inr (), print [Lit ''Unknown command: '', Lit command] w)))"

text \<open>
  The exit status of the process: 0 when the script runs to its end, the argument of
  \<^verbatim>\<open>sys.exit\<close>, and 1 when an exception is not caught.
\<close>

definition exit_status :: "exn + unit \<Rightarrow> int" where
  "exit_status r = (case r of Inr _ \<Rightarrow> 0 | Inl (SystemExit c) \<Rightarrow> c | Inl _ \<Rightarrow> 1)"

subsection \<open>Notions used in the statements\<close>

text \<open>
  An entry that is a directory holding an info document. Among the entries of a sweep
  parent, \<open>valid_jobs\<close> are the subdirectories whose name begins with the four
  characters \<^verbatim>\<open>job_\<close>, whatever follows them, and that hold an info document.
\<close>

definition holds_info :: "string \<times> node \<Rightarrow> bool" where
  "holds_info j =
     (case snd j of Dir _ jes \<Rightarrow> map_of jes ''experiment_info.json'' \<noteq> None | File _ \<Rightarrow> False)"

definition valid_jobs :: "(string \<times> node) list \<Rightarrow> (string \<times> node) list" where
  "valid_jobs pes = filter (\<lambda>j. take 4 (fst j) = ''job_'' \<and> holds_info j) pes"

text \<open>
  The job naming pattern of the specification, sections 4.1 and 6: the prefix
  \<^verbatim>\<open>job_\<close> followed by an index (\<^verbatim>\<open>job_0\<close>, \<^verbatim>\<open>job_1\<close>, ...), that is by one or more
  decimal digits; and the valid job subdirectories of a sweep parent under that pattern.
\<close>

definition is_digit :: "char \<Rightarrow> bool" where
  "is_digit c = (CHR ''0'' \<le> c \<and> c \<le> CHR ''9'')"

definition job_pattern :: "string \<Rightarrow> bool" where
  "job_pattern name =
     (take 4 name = ''job_'' \<and> drop 4 name \<noteq> [] \<and> list_all is_digit (drop 4 name))"

definition pattern_jobs :: "(string \<times> node) list \<Rightarrow> (string \<times> node) list" where
  "pattern_jobs pes = filter (\<lambda>j. job_pattern (fst j) \<and> holds_info j) pes"

text \<open>The keys of the info and results documents of a directory, when they are objects.\<close>

definition object_keys :: "node option \<Rightarrow> string list" where
  "object_keys f = (case f of Some (File (Json_text (JObject d))) \<Rightarrow> map fst d | _ \<Rightarrow> [])"

definition doc_keys :: "(string \<times> node) list \<Rightarrow> string list" where
  "doc_keys es =
     object_keys (map_of es ''experiment_info.json'') @ object_keys (map_of es ''results.json'')"

text \<open>
  The documents that the index builder reads in a directory are JSON objects: the info
  document, and the results document when there is one. A root is readable when this
  holds for every regular experiment and every valid job subdirectory, and the name of
  the index file is not taken by a directory.
\<close>

definition is_object :: "node option \<Rightarrow> bool" where
  "is_object f = (case f of Some (File (Json_text (JObject _))) \<Rightarrow> True | _ \<Rightarrow> False)"

definition readable_dir :: "(string \<times> node) list \<Rightarrow> bool" where
  "readable_dir es =
     (is_object (map_of es ''experiment_info.json'') \<and>
      (map_of es ''results.json'' = None \<or> is_object (map_of es ''results.json'')))"

definition readable_job :: "string \<times> node \<Rightarrow> bool" where
  "readable_job j = (case snd j of Dir _ jes \<Rightarrow> readable_dir jes | File _ \<Rightarrow> True)"

fun readable_entry :: "string \<times> node \<Rightarrow> bool" where
  "readable_entry (name, File _) = True"
| "readable_entry (name, Dir _ es) =
     (if map_of es ''experiment_info.json'' \<noteq> None then readable_dir es
      else list_all readable_job (valid_jobs es))"

definition readable_root :: "(string \<times> node) list \<Rightarrow> bool" where
  "readable_root entries =
     (list_all readable_entry entries \<and>
      (case map_of entries ''experiment_index.csv'' of Some (Dir _ _) \<Rightarrow> False | _ \<Rightarrow> True))"


text \<open>
  The cleanup can decide on every entry: the check of lines 93-98 raises on no
  subdirectory older than the cutoff.
\<close>

definition checkable_entry :: "rat \<Rightarrow> string \<times> node \<Rightarrow> bool" where
  "checkable_entry cutoff e =
     (case snd e of
        Dir mtime es \<Rightarrow>
          cutoff \<le> mtime \<or> (case keep_experiment es of Inr _ \<Rightarrow> True | Inl _ \<Rightarrow> False)
      | File _ \<Rightarrow> True)"

subsection \<open>Concrete inputs\<close>

text \<open>
  An instance of the three library parameters, to run the model on concrete inputs: the
  search of a pattern without regular-expression metacharacters, which is a substring
  test that ignores the case of ASCII letters; index texts that read back as the table
  that was written; and a sort that leaves equal values in their original order.
\<close>

definition lower :: "char \<Rightarrow> char" where
  "lower c =
     (if CHR ''A'' \<le> c \<and> c \<le> CHR ''Z'' then char_of (of_char c + (32::nat)) else c)"

fun is_substring :: "string \<Rightarrow> string \<Rightarrow> bool" where
  "is_substring p [] = (p = [])"
| "is_substring p (c # cs) = (take (length p) (c # cs) = p \<or> is_substring p cs)"

definition literal_lib :: lib where
  "literal_lib =
     \<lparr>str_contains = (\<lambda>pat s. Inr (is_substring (map lower pat) (map lower s))),
      csv_round_trip = Inr,
      sort_positions = (\<lambda>vals. map snd (sort_desc fst (zip vals [0..<length vals])))\<rparr>"

text \<open>
  An experiment directory as the training entry point leaves it, with a results document
  beside the info document; a root with a sweep parent (its jobs listed out of order), a
  plain file and a regular experiment.
\<close>

definition experiment_dir :: "rat \<Rightarrow> string \<Rightarrow> rat \<Rightarrow> node" where
  "experiment_dir mtime name acc =
     Dir mtime
       [(''experiment_info.json'',
         File (Json_text (JObject [(''name'', JStr name), (''model'', JStr ''r18''),
                                   (''dataset'', JStr ''c10'')]))),
        (''results.json'', File (Json_text (JObject [(''best_accuracy'', JNum acc)])))]"

definition sweepB_entries :: "(string \<times> node) list" where
  "sweepB_entries =
     [(''job_1'', experiment_dir 2000 ''b1'' (15 / 16)),
      (''notes.txt'', File Other_text),
      (''job_0'', experiment_dir 2000 ''b0'' (1 / 2))]"

definition example_entries :: "(string \<times> node) list" where
  "example_entries =
     [(''sweepB'', Dir 3000 sweepB_entries), (''expA'', experiment_dir 1000 ''expA'' (7 / 8))]"

definition example_world :: world where
  "example_world = \<lparr>outputs = Some (Dir 4000 example_entries), clock = 5000, stdout = []\<rparr>"

definition record_of :: "string \<Rightarrow> rat \<Rightarrow> string \<Rightarrow> string \<Rightarrow> pydict" where
  "record_of name acc folder path =
     [(''name'', JStr name), (''model'', JStr ''r18''), (''dataset'', JStr ''c10''),
      (''best_accuracy'', JNum acc), (''folder_name'', JStr folder), (''full_path'', JStr path)]"

definition example_records :: "pydict list" where
  "example_records =
     [record_of ''b0'' (1 / 2) ''job_0'' ''outputs/sweepB/job_0'' @
        [(''sweep_parent'', JStr ''sweepB''), (''job_number'', JStr ''job_0'')],
      record_of ''b1'' (15 / 16) ''job_1'' ''outputs/sweepB/job_1'' @
        [(''sweep_parent'', JStr ''sweepB''), (''job_number'', JStr ''job_1'')],
      record_of ''expA'' (7 / 8) ''expA'' ''outputs/expA'']"

text \<open>
  A regular experiment whose results document carries the keys \<open>job_number\<close> and
  \<open>sweep_parent\<close> of its own.
\<close>

definition tagged_entries :: "(string \<times> node) list" where
  "tagged_entries =
     [(''experiment_info.json'',
       File (Json_text (JObject [(''name'', JStr ''expA''), (''model'', JStr ''r18''),
                                 (''dataset'', JStr ''c10'')]))),
      (''results.json'',
       File (Json_text (JObject [(''best_accuracy'', JNum (7 / 8)), (''job_number'', JNum 7),
                                 (''sweep_parent'', JStr ''manual'')])))]"

definition tagged_world :: world where
  "tagged_world =
     \<lparr>outputs = Some (Dir 4000 [(''expA'', Dir 1000 tagged_entries)]), clock = 5000,
      stdout = []\<rparr>"

definition tagged_record :: pydict where
  "tagged_record =
     [(''name'', JStr ''expA''), (''model'', JStr ''r18''), (''dataset'', JStr ''c10''),
      (''best_accuracy'', JNum (7 / 8)), (''job_number'', JNum 7),
      (''sweep_parent'', JStr ''manual''), (''folder_name'', JStr ''expA''),
      (''full_path'', JStr ''outputs/expA'')]"

text \<open>
  Roots for the cleanup, read thirty days and 5000 seconds after the epoch, when the
  cutoff is 5000: the example root; a root with an experiment above the threshold and one
  below it; and a root whose only experiment reports exactly the double \<^verbatim>\<open>0.9\<close>.
\<close>

definition aged_world :: world where
  "aged_world = example_world\<lparr>clock := 30 * 24 * 3600 + 5000\<rparr>"

definition retention_entries :: "(string \<times> node) list" where
  "retention_entries =
     [(''good'', experiment_dir 1000 ''good'' (15 / 16)),
      (''poor'', experiment_dir 1000 ''poor'' (7 / 8))]"

definition retention_world :: world where
  "retention_world =
     \<lparr>outputs = Some (Dir 4000 retention_entries), clock = 30 * 24 * 3600 + 5000,
      stdout = []\<rparr>"

definition threshold_world :: world where
  "threshold_world =
     \<lparr>outputs = Some (Dir 4000 [(''expA'', experiment_dir 1000 ''expA'' float_0_9)]),
      clock = 30 * 24 * 3600 + 5000, stdout = []\<rparr>"

text \<open>
  A root whose sweep parent holds, beside \<^verbatim>\<open>job_0\<close>, two subdirectories whose names
  begin with \<^verbatim>\<open>job_\<close> and do not continue with an index; each of the three holds an
  info document.
\<close>

definition mixed_entries :: "(string \<times> node) list" where
  "mixed_entries =
     [(''job_notes'', experiment_dir 2000 ''notes'' (1 / 4)),
      (''job_0'', experiment_dir 2000 ''m0'' (1 / 2)),
      (''job_'', experiment_dir 2000 ''bare'' (3 / 4))]"

definition mixed_world :: world where
  "mixed_world =
     \<lparr>outputs = Some (Dir 4000 [(''sweepM'', Dir 3000 mixed_entries)]), clock = 5000,
      stdout = []\<rparr>"

definition mixed_records :: "pydict list" where
  "mixed_records =
     [record_of ''bare'' (3 / 4) ''job_'' ''outputs/sweepM/job_'' @
        [(''sweep_parent'', JStr ''sweepM''), (''job_number'', JStr ''job_'')],
      record_of ''m0'' (1 / 2) ''job_0'' ''outputs/sweepM/job_0'' @
        [(''sweep_parent'', JStr ''sweepM''), (''job_number'', JStr ''job_0'')],
      record_of ''notes'' (1 / 4) ''job_notes'' ''outputs/sweepM/job_notes'' @
        [(''sweep_parent'', JStr ''sweepM''), (''job_number'', JStr ''job_notes'')]]"




definition counted_record :: "string \<Rightarrow> int \<Rightarrow> pydict" where
  "counted_record name n =
     [(''name'', JStr name), (''model'', JStr ''r18''), (''dataset'', JStr ''c10''),
      (''best_accuracy'', JInt n), (''folder_name'', JStr name),
      (''full_path'', JStr (''outputs/'' @ name))]"

definition rounding_records :: "pydict list" where
  "rounding_records =
     [counted_record ''e0'' 9007199254740992,
      counted_record ''e1'' 9007199254740993,
      [(''name'', JStr ''e2''), (''model'', JStr ''r18''), (''dataset'', JStr ''c10''),
       (''folder_name'', JStr ''e2''), (''full_path'', JStr ''outputs/e2'')]]"



definition empty_world :: world where
  "empty_world = \<lparr>outputs = Some (Dir 4000 []), clock = 5000, stdout = []\<rparr>"

section \<open>Properties of the index builder\<close>

subsection \<open>The loops and their accumulator\<close>

lemma index_jobs_acc:
  "index_jobs pp pn js acc =
     (case index_jobs pp pn js [] of Inl e \<Rightarrow> Inl e | Inr r \<Rightarrow> Inr (acc @ r))"
proof (induction js arbitrary: acc)
  case Nil
  show ?case by simp
next
  case (Cons j js)
  obtain jname jd where j: "j = (jname, jd)" by (cases j)
  show ?case
  proof (cases jd)
    case (File c)
    show ?thesis unfolding j File index_jobs.simps by (rule Cons.IH)
  next
    case (Dir m jes)
    show ?thesis
    proof (cases "map_of jes ''experiment_info.json'' \<noteq> None")
      case False
      then show ?thesis unfolding j Dir index_jobs.simps using Cons.IH[of acc] by simp
    next
      case True
      show ?thesis
      proof (cases "extract_experiment_info (joinpath pp jname) jname jes")
        case (Inl e)
        then show ?thesis unfolding j Dir index_jobs.simps using True by simp
      next
        case (Inr info)
        let ?r = "AList.update ''job_number'' (JStr jname)
                     (AList.update ''sweep_parent'' (JStr pn) info)"
        have a: "index_jobs pp pn js (acc @ [?r]) =
           (case index_jobs pp pn js [] of Inl e \<Rightarrow> Inl e | Inr r \<Rightarrow> Inr ((acc @ [?r]) @ r))"
          by (rule Cons.IH)
        have b: "index_jobs pp pn js ([] @ [?r]) =
           (case index_jobs pp pn js [] of Inl e \<Rightarrow> Inl e | Inr r \<Rightarrow> Inr ([?r] @ r))"
          using Cons.IH[of "[?r]"] by simp
        show ?thesis unfolding j Dir index_jobs.simps Inr sum.case a b using True
          by (simp split: sum.splits)
      qed
    qed
  qed
qed

lemma index_dirs_acc:
  "index_dirs es acc =
     (case index_dirs es [] of Inl e \<Rightarrow> Inl e | Inr r \<Rightarrow> Inr (acc @ r))"
proof (induction es arbitrary: acc)
  case Nil
  show ?case by simp
next
  case (Cons x es)
  obtain name nd where x: "x = (name, nd)" by (cases x)
  show ?case
  proof (cases nd)
    case (File c)
    show ?thesis unfolding x File index_dirs.simps by (rule Cons.IH)
  next
    case (Dir m des)
    let ?jobs = "index_jobs (joinpath base_dir name) name (sorted_paths (job_dirs des))"
    consider (regular) "map_of des ''experiment_info.json'' \<noteq> None"
      | (sweep) "map_of des ''experiment_info.json'' = None" "job_dirs des \<noteq> []"
      | (neither) "map_of des ''experiment_info.json'' = None" "job_dirs des = []"
      by blast
    then show ?thesis
    proof cases
      case regular
      show ?thesis
      proof (cases "extract_experiment_info (joinpath base_dir name) name des")
        case (Inl e)
        then show ?thesis unfolding x Dir index_dirs.simps using regular by simp
      next
        case (Inr info)
        have a: "index_dirs es (acc @ [info]) =
           (case index_dirs es [] of Inl e \<Rightarrow> Inl e | Inr r \<Rightarrow> Inr ((acc @ [info]) @ r))"
          by (rule Cons.IH)
        have b: "index_dirs es ([] @ [info]) =
           (case index_dirs es [] of Inl e \<Rightarrow> Inl e | Inr r \<Rightarrow> Inr ([info] @ r))"
          using Cons.IH[of "[info]"] by simp
        show ?thesis unfolding x Dir index_dirs.simps Inr sum.case a b using regular
          by (simp split: sum.splits)
      qed
    next
      case sweep
      show ?thesis
      proof (cases "?jobs []")
        case (Inl e)
        then show ?thesis unfolding x Dir index_dirs.simps index_jobs_acc[of _ _ _ acc]
          using sweep by simp
      next
        case (Inr rp)
        have a: "index_dirs es (acc @ rp) =
           (case index_dirs es [] of Inl e \<Rightarrow> Inl e | Inr r \<Rightarrow> Inr ((acc @ rp) @ r))"
          by (rule Cons.IH)
        have b: "index_dirs es rp =
           (case index_dirs es [] of Inl e \<Rightarrow> Inl e | Inr r \<Rightarrow> Inr (rp @ r))"
          by (rule Cons.IH)
        show ?thesis unfolding x Dir index_dirs.simps index_jobs_acc[of _ _ _ acc] Inr sum.case a
          using sweep b by (simp split: sum.splits)
      qed
    next
      case neither
      then show ?thesis unfolding x Dir index_dirs.simps using Cons.IH[of acc] by simp
    qed
  qed
qed

lemma index_dirs_append_acc:
  "index_dirs (xs @ ys) acc =
     (case index_dirs xs acc of Inl e \<Rightarrow> Inl e | Inr a \<Rightarrow> index_dirs ys a)"
proof (induction xs arbitrary: acc)
  case Nil
  show ?case by simp
next
  case (Cons x xs)
  obtain name nd where x: "x = (name, nd)" by (cases x)
  show ?case by (cases nd) (simp_all add: x Cons.IH split: sum.splits)
qed

lemma index_dirs_append:
  "index_dirs (xs @ ys) [] =
     (case index_dirs xs [] of
        Inl e \<Rightarrow> Inl e
      | Inr a \<Rightarrow> (case index_dirs ys [] of Inl e \<Rightarrow> Inl e | Inr b \<Rightarrow> Inr (a @ b)))"
proof (cases "index_dirs xs []")
  case (Inl e)
  then show ?thesis by (simp add: index_dirs_append_acc)
next
  case (Inr a)
  then show ?thesis using index_dirs_acc[of ys a] by (simp add: index_dirs_append_acc)
qed

subsection \<open>The fields of one record\<close>

lemma dict_update_keys: "fst ` set (dict_update d r) = fst ` set d \<union> fst ` set r"
  unfolding dict_update_def
proof (induction r arbitrary: d)
  case Nil
  show ?case by simp
next
  case (Cons kv r)
  obtain k v where kv: "kv = (k, v)" by (cases kv)
  show ?case unfolding kv by (simp add: Cons.IH dom_update)
qed

lemma extract_experiment_info_fields:
  assumes "extract_experiment_info path name es = Inr r"
  shows "map_of r ''folder_name'' = Some (JStr name)"
    and "map_of r ''full_path'' = Some (JStr path)"
    and "fst ` set r = {''folder_name'', ''full_path''} \<union> set (doc_keys es)"
proof -
  from assms obtain d where
    r: "r = AList.update ''full_path'' (JStr path) (AList.update ''folder_name'' (JStr name) d)"
    and d: "fst ` set d = set (doc_keys es)"
    by (auto simp: extract_experiment_info_def json_load_def doc_keys_def object_keys_def
          dict_update_keys
        split: option.splits sum.splits node.splits content.splits jdoc.splits)
  show "map_of r ''folder_name'' = Some (JStr name)" by (simp add: r update_conv')
  show "map_of r ''full_path'' = Some (JStr path)" by (simp add: r update_conv')
  show "fst ` set r = {''folder_name'', ''full_path''} \<union> set (doc_keys es)"
    by (simp add: r dom_update d)
qed

subsection \<open>The records of one sweep parent\<close>

lemma index_jobs_records:
  assumes "index_jobs pp pn js [] = Inr rp"
  shows "list_all2
           (\<lambda>j r. map_of r ''folder_name'' = Some (JStr (fst j)) \<and>
                  map_of r ''full_path'' = Some (JStr (joinpath pp (fst j))) \<and>
                  map_of r ''sweep_parent'' = Some (JStr pn) \<and>
                  map_of r ''job_number'' = Some (JStr (fst j)))
           (filter holds_info js) rp"
  using assms
proof (induction js arbitrary: rp)
  case Nil
  then show ?case by simp
next
  case (Cons j js)
  obtain jname jd where j: "j = (jname, jd)" by (cases j)
  show ?case
  proof (cases jd)
    case (File c)
    with Cons j show ?thesis by (simp add: holds_info_def)
  next
    case (Dir m jes)
    show ?thesis
    proof (cases "map_of jes ''experiment_info.json'' \<noteq> None")
      case False
      with Cons j Dir show ?thesis by (simp add: holds_info_def)
    next
      case True
      from Cons.prems True obtain info where
        info: "extract_experiment_info (joinpath pp jname) jname jes = Inr info"
        by (cases "extract_experiment_info (joinpath pp jname) jname jes") (simp_all add: j Dir)
      let ?r = "AList.update ''job_number'' (JStr jname)
                  (AList.update ''sweep_parent'' (JStr pn) info)"
      from Cons.prems True info have "index_jobs pp pn js [?r] = Inr rp"
        by (simp add: j Dir)
      then obtain rest where rest: "index_jobs pp pn js [] = Inr rest" and rp: "rp = ?r # rest"
        using index_jobs_acc[of pp pn js "[?r]"] by (auto split: sum.splits)
      have fields: "map_of ?r ''folder_name'' = Some (JStr jname)"
        "map_of ?r ''full_path'' = Some (JStr (joinpath pp jname))"
        "map_of ?r ''sweep_parent'' = Some (JStr pn)"
        "map_of ?r ''job_number'' = Some (JStr jname)"
        using extract_experiment_info_fields(1,2)[OF info] by (simp_all add: update_conv')
      have "holds_info j" using True by (simp add: holds_info_def j Dir)
      then show ?thesis using Cons.IH[OF rest] fields by (simp add: rp j)
    qed
  qed
qed

text \<open>
  The subdirectories that line 41 accepts among those that line 33 selects are the valid
  job subdirectories.
\<close>

lemma startswith_job: "startswith n ''job_'' = (take 4 n = ''job_'')"
  by (simp add: startswith_def eval_nat_numeral)

lemma valid_jobs_code: "filter holds_info (job_dirs pes) = valid_jobs pes"
  by (induction pes)
    (auto simp: job_dirs_def valid_jobs_def holds_info_def startswith_job split: node.splits)

lemma valid_jobs_sorted:
  "filter holds_info (sorted_paths (job_dirs pes)) = sorted_paths (valid_jobs pes)"
  by (simp add: sorted_paths_def filter_sort valid_jobs_code)

lemma index_dirs_sweep_parent:
  assumes "map_of pes ''experiment_info.json'' = None"
    and "index_dirs ((pname, Dir m pes) # rest) [] = Inr rs"
  shows "\<exists>rp ra. rs = rp @ ra \<and> index_dirs rest [] = Inr ra \<and>
           index_jobs (joinpath base_dir pname) pname (sorted_paths (job_dirs pes)) [] = Inr rp"
proof (cases "job_dirs pes = []")
  case True
  with assms show ?thesis by (simp add: sorted_paths_def)
next
  case False
  let ?jobs = "index_jobs (joinpath base_dir pname) pname (sorted_paths (job_dirs pes)) []"
  from assms False obtain rp where rp: "?jobs = Inr rp" and r: "index_dirs rest rp = Inr rs"
    by (cases ?jobs) simp_all
  from r obtain ra where "index_dirs rest [] = Inr ra" "rs = rp @ ra"
    using index_dirs_acc[of rest rp] by (auto split: sum.splits)
  with rp show ?thesis by blast
qed

subsection \<open>Readable roots are indexed\<close>

lemma extract_experiment_info_returns:
  assumes "readable_dir es"
  shows "\<exists>r. extract_experiment_info path name es = Inr r"
  using assms
  by (auto simp: readable_dir_def is_object_def extract_experiment_info_def json_load_def
      split: option.splits node.splits content.splits jdoc.splits)

lemma index_jobs_returns:
  assumes "list_all readable_job (filter holds_info js)"
  shows "\<exists>rp. index_jobs pp pn js [] = Inr rp"
  using assms
proof (induction js)
  case Nil
  show ?case by simp
next
  case (Cons j js)
  obtain jname jd where j: "j = (jname, jd)" by (cases j)
  from Cons.prems have "list_all readable_job (filter holds_info js)"
    by (simp split: if_splits)
  from Cons.IH[OF this] obtain rest where rest: "index_jobs pp pn js [] = Inr rest" by blast
  show ?case
  proof (cases jd)
    case (File c)
    with rest j show ?thesis by simp
  next
    case (Dir m jes)
    show ?thesis
    proof (cases "map_of jes ''experiment_info.json'' \<noteq> None")
      case False
      with rest j Dir show ?thesis by simp
    next
      case True
      then have "holds_info j" by (simp add: holds_info_def j Dir)
      with Cons.prems have "readable_dir jes" by (simp add: readable_job_def j Dir)
      from extract_experiment_info_returns[OF this] obtain info where
        "extract_experiment_info (joinpath pp jname) jname jes = Inr info" by blast
      with True rest show ?thesis
        using index_jobs_acc[of pp pn js "[AList.update ''job_number'' (JStr jname)
                  (AList.update ''sweep_parent'' (JStr pn) info)]"]
        by (simp add: j Dir)
    qed
  qed
qed

lemma index_dirs_returns:
  assumes "list_all readable_entry es"
  shows "\<exists>rs. index_dirs es [] = Inr rs"
  using assms
proof (induction es)
  case Nil
  show ?case by simp
next
  case (Cons x es)
  obtain name nd where x: "x = (name, nd)" by (cases x)
  from Cons obtain rest where rest: "index_dirs es [] = Inr rest" by auto
  show ?case
  proof (cases nd)
    case (File c)
    with rest x show ?thesis by simp
  next
    case (Dir m des)
    show ?thesis
    proof (cases "map_of des ''experiment_info.json'' \<noteq> None")
      case True
      with Cons.prems have "readable_dir des" by (simp add: x Dir)
      from extract_experiment_info_returns[OF this] obtain info where
        "extract_experiment_info (joinpath base_dir name) name des = Inr info" by blast
      with True rest show ?thesis
        using index_dirs_acc[of es "[info]"] by (simp add: x Dir)
    next
      case False
      with Cons.prems have "list_all readable_job (valid_jobs des)" by (simp add: x Dir)
      then have "list_all readable_job (filter holds_info (sorted_paths (job_dirs des)))"
        unfolding valid_jobs_sorted by (simp add: sorted_paths_def list_all_iff)
      from index_jobs_returns[OF this] obtain rp where
        rp: "index_jobs (joinpath base_dir name) name (sorted_paths (job_dirs des)) [] = Inr rp"
        by blast
      show ?thesis
      proof (cases "job_dirs des = []")
        case True
        with False rest show ?thesis by (simp add: x Dir)
      next
        case nonempty: False
        with False rest rp show ?thesis
          using index_dirs_acc[of es rp] by (simp add: x Dir)
      qed
    qed
  qed
qed

lemma create_experiment_index_returns:
  assumes "outputs w = Some (Dir m0 entries)" and "readable_root entries"
  shows "\<exists>df w'. create_experiment_index lb w = (Inr df, w')"
proof -
  from assms(2) obtain rs where "index_dirs entries [] = Inr rs"
    using index_dirs_returns by (auto simp: readable_root_def)
  with assms show ?thesis
    by (auto simp: create_experiment_index_def iterdir_def to_csv_def readable_root_def
        split: option.splits node.splits)
qed

subsection \<open>Claim C7\<close>

lemma example_index_dirs: "index_dirs example_entries [] = Inr example_records"
  by (simp add: example_entries_def sweepB_entries_def experiment_dir_def example_records_def record_of_def
        extract_experiment_info_def json_load_def dict_update_def job_dirs_def sorted_paths_def
        startswith_def joinpath_def base_dir_def)

lemma example_index:
  "fst (create_experiment_index literal_lib example_world) = Inr (DataFrame example_records)"
proof -
  have "map_of example_entries ''experiment_index.csv'' = None"
    by (simp add: example_entries_def)
  with example_index_dirs show ?thesis
    by (simp add: create_experiment_index_def example_world_def iterdir_def to_csv_def)
qed

lemma create_experiment_index_rows:
  assumes "create_experiment_index lb w = (Inr df, w')"
    and "outputs w = Some (Dir m0 es)"
  shows "index_dirs es [] = Inr (rows df)"
  using assms
  by (auto simp: create_experiment_index_def iterdir_def DataFrame_def
      split: sum.splits prod.splits)

lemma sweep_parent_records_of_build:
  assumes "outputs w = Some (Dir m0 (before @ (pname, Dir m pes) # after))"
    and "map_of pes ''experiment_info.json'' = None"
    and "create_experiment_index lb w = (Inr df, w')"
  shows "\<exists>rb rp ra.
           rows df = rb @ rp @ ra \<and>
           index_dirs before [] = Inr rb \<and>
           index_dirs after [] = Inr ra \<and>
           length rp = length (valid_jobs pes) \<and>
           map (\<lambda>r. map_of r ''job_number'') rp =
             map (\<lambda>j. Some (JStr (fst j))) (sorted_paths (valid_jobs pes)) \<and>
           sorted (map fst (sorted_paths (valid_jobs pes))) \<and>
           mset (sorted_paths (valid_jobs pes)) = mset (valid_jobs pes) \<and>
           map (\<lambda>r. map_of r ''sweep_parent'') rp =
             map (\<lambda>j. Some (JStr pname)) (valid_jobs pes)"
proof -
  let ?jobs = "sorted_paths (valid_jobs pes)"
  have "index_dirs (before @ (pname, Dir m pes) # after) [] = Inr (rows df)"
    by (rule create_experiment_index_rows[OF assms(3) assms(1)])
  then obtain rb rest where rb: "index_dirs before [] = Inr rb"
    and rest: "index_dirs ((pname, Dir m pes) # after) [] = Inr rest"
    and split: "rows df = rb @ rest"
    by (auto simp: index_dirs_append[of before] split: sum.splits)
  from index_dirs_sweep_parent[OF assms(2) rest] obtain rp ra where
    rest_eq: "rest = rp @ ra" and ra: "index_dirs after [] = Inr ra"
    and rp: "index_jobs (joinpath base_dir pname) pname (sorted_paths (job_dirs pes)) [] = Inr rp"
    by blast
  have rel: "list_all2
           (\<lambda>j r. map_of r ''folder_name'' = Some (JStr (fst j)) \<and>
                  map_of r ''full_path'' = Some (JStr (joinpath (joinpath base_dir pname) (fst j))) \<and>
                  map_of r ''sweep_parent'' = Some (JStr pname) \<and>
                  map_of r ''job_number'' = Some (JStr (fst j)))
           ?jobs rp"
    using index_jobs_records[OF rp] by (simp add: valid_jobs_sorted)
  have len: "length ?jobs = length rp" using rel by (rule list_all2_lengthD)
  have len': "length rp = length (valid_jobs pes)" using len by (simp add: sorted_paths_def)
  have jn: "map (\<lambda>r. map_of r ''job_number'') rp = map (\<lambda>j. Some (JStr (fst j))) ?jobs"
    using rel len by (auto simp: list_all2_conv_all_nth intro!: nth_equalityI)
  have sp: "map (\<lambda>r. map_of r ''sweep_parent'') rp = map (\<lambda>j. Some (JStr pname)) (valid_jobs pes)"
    using rel len' by (auto simp: list_all2_conv_all_nth intro!: nth_equalityI)
  have srt: "sorted (map fst ?jobs)" by (simp add: sorted_paths_def)
  have perm: "mset ?jobs = mset (valid_jobs pes)" by (simp add: sorted_paths_def)
  show ?thesis using split rest_eq rb ra len' jn srt perm sp by auto
qed

lemma mixed_index_dirs:
  "index_dirs [(''sweepM'', Dir 3000 mixed_entries)] [] = Inr mixed_records"
  by (simp add: mixed_entries_def experiment_dir_def mixed_records_def record_of_def
        extract_experiment_info_def json_load_def dict_update_def job_dirs_def sorted_paths_def
        startswith_def joinpath_def base_dir_def)

text \<open>
  C7, as the claim states it, fails when a valid job subdirectory is one whose name
  matches the job pattern of the specification, \<^verbatim>\<open>job_\<close> followed by an index. The
  sweep parent \<^verbatim>\<open>sweepM\<close> of a readable root holds the subdirectories
  \<^verbatim>\<open>job_notes\<close>, \<^verbatim>\<open>job_0\<close> and \<^verbatim>\<open>job_\<close>, each with an info document. Under the
  pattern it has one valid job subdirectory, \<^verbatim>\<open>job_0\<close>; the index builder produces
  three records for it, with the \<open>job_number\<close> fields \<^verbatim>\<open>job_\<close>, \<^verbatim>\<open>job_0\<close> and
  \<^verbatim>\<open>job_notes\<close>.
\<close>

theorem sweep_parent_records_beyond_pattern:
  "outputs mixed_world = Some (Dir 4000 [(''sweepM'', Dir 3000 mixed_entries)]) \<and>
   map_of mixed_entries ''experiment_info.json'' = None \<and>
   map fst (filter holds_info mixed_entries) = [''job_notes'', ''job_0'', ''job_''] \<and>
   map fst (pattern_jobs mixed_entries) = [''job_0''] \<and>
   fst (create_experiment_index literal_lib mixed_world) = Inr (DataFrame mixed_records) \<and>
   length mixed_records = 3 \<and>
   map (\<lambda>r. map_of r ''sweep_parent'') mixed_records =
     [Some (JStr ''sweepM''), Some (JStr ''sweepM''), Some (JStr ''sweepM'')] \<and>
   map (\<lambda>r. map_of r ''job_number'') mixed_records =
     [Some (JStr ''job_''), Some (JStr ''job_0''), Some (JStr ''job_notes'')]"
proof -
  have h1: "outputs mixed_world = Some (Dir 4000 [(''sweepM'', Dir 3000 mixed_entries)])"
    by (simp add: mixed_world_def)
  have h2: "map_of mixed_entries ''experiment_info.json'' = None"
    by (simp add: mixed_entries_def)
  have h3: "map fst (filter holds_info mixed_entries) = [''job_notes'', ''job_0'', ''job_'']"
    by (simp add: mixed_entries_def holds_info_def experiment_dir_def)
  have h4: "map fst (pattern_jobs mixed_entries) = [''job_0'']"
    by (simp add: pattern_jobs_def job_pattern_def is_digit_def mixed_entries_def
          holds_info_def experiment_dir_def)
  have h5: "fst (create_experiment_index literal_lib mixed_world) =
      Inr (DataFrame mixed_records)"
    using mixed_index_dirs
    by (simp add: create_experiment_index_def mixed_world_def iterdir_def to_csv_def)
  have h6: "length mixed_records = 3"
    by (simp add: mixed_records_def)
  have h7: "map (\<lambda>r. map_of r ''sweep_parent'') mixed_records =
      [Some (JStr ''sweepM''), Some (JStr ''sweepM''), Some (JStr ''sweepM'')]"
    by (simp add: mixed_records_def record_of_def)
  have h8: "map (\<lambda>r. map_of r ''job_number'') mixed_records =
      [Some (JStr ''job_''), Some (JStr ''job_0''), Some (JStr ''job_notes'')]"
    by (simp add: mixed_records_def record_of_def)
  show ?thesis by (intro conjI h1 h2 h3 h4 h5 h6 h7 h8)
qed

text \<open>
  C7, amended: the valid job subdirectories of a sweep parent are the subdirectories
  whose name begins with \<^verbatim>\<open>job_\<close>, whether or not an index follows, and that hold an
  info document. Let a subdirectory of the root have no info document of its own, so that
  the index builder treats it as a sweep parent, and let the root be readable. Then the
  index build returns a table; the rows of the table are the records of the entries
  before the parent, the records of the parent, and the records of the entries after it,
  in this order; the parent has one record for each of its valid job subdirectories, the
  \<open>job_number\<close> fields of these records are the names of the valid job subdirectories
  in ascending lexicographic order, and every one of them has the parent's name as
  \<open>sweep_parent\<close>.
\<close>

theorem sweep_parent_records:
  assumes "outputs w = Some (Dir m0 (before @ (pname, Dir m pes) # after))"
    and "map_of pes ''experiment_info.json'' = None"
    and "readable_root (before @ (pname, Dir m pes) # after)"
  shows "\<exists>df w' rb rp ra.
           create_experiment_index lb w = (Inr df, w') \<and>
           rows df = rb @ rp @ ra \<and>
           index_dirs before [] = Inr rb \<and>
           index_dirs after [] = Inr ra \<and>
           length rp = length (valid_jobs pes) \<and>
           map (\<lambda>r. map_of r ''job_number'') rp =
             map (\<lambda>j. Some (JStr (fst j))) (sorted_paths (valid_jobs pes)) \<and>
           sorted (map fst (sorted_paths (valid_jobs pes))) \<and>
           mset (sorted_paths (valid_jobs pes)) = mset (valid_jobs pes) \<and>
           map (\<lambda>r. map_of r ''sweep_parent'') rp =
             map (\<lambda>j. Some (JStr pname)) (valid_jobs pes)"
proof -
  from create_experiment_index_returns[OF assms(1,3)] obtain df w' where
    build: "create_experiment_index lb w = (Inr df, w')" by blast
  from sweep_parent_records_of_build[OF assms(1,2) build] build show ?thesis by blast
qed

theorem sweep_parent_records_witness:
  "outputs example_world =
     Some (Dir 4000 ([] @ (''sweepB'', Dir 3000 sweepB_entries) #
                           [(''expA'', experiment_dir 1000 ''expA'' (7 / 8))])) \<and>
   map_of sweepB_entries ''experiment_info.json'' = None \<and>
   readable_root ([] @ (''sweepB'', Dir 3000 sweepB_entries) #
                         [(''expA'', experiment_dir 1000 ''expA'' (7 / 8))]) \<and>
   fst (create_experiment_index literal_lib example_world) = Inr (DataFrame example_records) \<and>
   map fst (valid_jobs sweepB_entries) = [''job_1'', ''job_0''] \<and>
   (\<exists>rb rp ra.
      example_records = rb @ rp @ ra \<and> rb = [] \<and> length ra = 1 \<and> length rp = 2 \<and>
      map (\<lambda>r. map_of r ''job_number'') rp = [Some (JStr ''job_0''), Some (JStr ''job_1'')] \<and>
      map (\<lambda>r. map_of r ''sweep_parent'') rp = [Some (JStr ''sweepB''), Some (JStr ''sweepB'')])"
proof -
  have h1: "outputs example_world =
     Some (Dir 4000 ([] @ (''sweepB'', Dir 3000 sweepB_entries) #
                           [(''expA'', experiment_dir 1000 ''expA'' (7 / 8))]))"
    by (simp add: example_world_def example_entries_def)
  have h2: "map_of sweepB_entries ''experiment_info.json'' = None"
    by (simp add: sweepB_entries_def)
  have vj: "valid_jobs sweepB_entries =
      [(''job_1'', experiment_dir 2000 ''b1'' (15 / 16)),
       (''job_0'', experiment_dir 2000 ''b0'' (1 / 2))]"
    by (simp add: valid_jobs_def holds_info_def sweepB_entries_def experiment_dir_def)
  have jobs: "map fst (valid_jobs sweepB_entries) = [''job_1'', ''job_0'']"
    by (simp add: vj)
  have sorted_jobs: "sorted_paths (valid_jobs sweepB_entries) =
      [(''job_0'', experiment_dir 2000 ''b0'' (1 / 2)),
       (''job_1'', experiment_dir 2000 ''b1'' (15 / 16))]"
    by (simp add: vj sorted_paths_def)
  have after: "index_dirs [(''expA'', experiment_dir 1000 ''expA'' (7 / 8))] [] =
      Inr [record_of ''expA'' (7 / 8) ''expA'' ''outputs/expA'']"
    by (simp add: experiment_dir_def record_of_def extract_experiment_info_def json_load_def
          dict_update_def joinpath_def base_dir_def)
  have dir: "readable_dir (case experiment_dir t n a of Dir _ es \<Rightarrow> es | File _ \<Rightarrow> [])" for t n a
    by (simp add: experiment_dir_def readable_dir_def is_object_def)
  have job: "readable_job (j, experiment_dir t n a)" for j t n a
    using dir[of t n a] by (simp add: readable_job_def experiment_dir_def)
  have parent: "readable_entry (''sweepB'', Dir 3000 sweepB_entries)"
    by (simp add: h2 vj job)
  have regular: "readable_entry (''expA'', experiment_dir 1000 ''expA'' (7 / 8))"
    using dir[of 1000 "''expA''" "7 / 8"] by (simp add: experiment_dir_def)
  have h4: "readable_root ([] @ (''sweepB'', Dir 3000 sweepB_entries) #
                         [(''expA'', experiment_dir 1000 ''expA'' (7 / 8))])"
    unfolding readable_root_def using parent regular by simp
  from sweep_parent_records[OF h1 h2 h4, of literal_lib] obtain df w' rb rp ra where
    build: "create_experiment_index literal_lib example_world = (Inr df, w')"
    and c0: "rows df = rb @ rp @ ra"
    and c: "index_dirs [] [] = Inr rb"
      "index_dirs [(''expA'', experiment_dir 1000 ''expA'' (7 / 8))] [] = Inr ra"
      "length rp = length (valid_jobs sweepB_entries)"
      "map (\<lambda>r. map_of r ''job_number'') rp =
         map (\<lambda>j. Some (JStr (fst j))) (sorted_paths (valid_jobs sweepB_entries))"
      "map (\<lambda>r. map_of r ''sweep_parent'') rp =
         map (\<lambda>j. Some (JStr ''sweepB'')) (valid_jobs sweepB_entries)"
    by (elim exE conjE)
  have df: "df = DataFrame example_records" using build example_index by simp
  have jn: "map (\<lambda>r. map_of r ''job_number'') rp = [Some (JStr ''job_0''), Some (JStr ''job_1'')]"
    using c(4) by (simp add: sorted_jobs)
  have sp: "map (\<lambda>r. map_of r ''sweep_parent'') rp =
      [Some (JStr ''sweepB''), Some (JStr ''sweepB'')]"
    using c(5) by (simp add: vj)
  have rb: "rb = []" using c(1) by simp
  have ra: "ra = [record_of ''expA'' (7 / 8) ''expA'' ''outputs/expA'']"
    using c(2) by (simp add: after)
  have rp: "length rp = 2" using c(3) by (simp add: vj)
  have parts: "example_records = rb @ rp @ ra" using c0 by (simp add: df DataFrame_def)
  have "example_records = rb @ rp @ ra \<and> rb = [] \<and> length ra = 1 \<and> length rp = 2 \<and>
      map (\<lambda>r. map_of r ''job_number'') rp = [Some (JStr ''job_0''), Some (JStr ''job_1'')] \<and>
      map (\<lambda>r. map_of r ''sweep_parent'') rp = [Some (JStr ''sweepB''), Some (JStr ''sweepB'')]"
    by (intro conjI parts rb rp jn sp) (simp add: ra)
  then have "\<exists>rb rp ra.
      example_records = rb @ rp @ ra \<and> rb = [] \<and> length ra = 1 \<and> length rp = 2 \<and>
      map (\<lambda>r. map_of r ''job_number'') rp = [Some (JStr ''job_0''), Some (JStr ''job_1'')] \<and>
      map (\<lambda>r. map_of r ''sweep_parent'') rp = [Some (JStr ''sweepB''), Some (JStr ''sweepB'')]"
    by (intro exI)
  then show ?thesis by (intro conjI h1 h2 h4 example_index jobs)
qed

subsection \<open>Claim C10\<close>

lemma holds_infoD:
  assumes "holds_info j"
  obtains jname jm jes where "j = (jname, Dir jm jes)"
    and "map_of jes ''experiment_info.json'' \<noteq> None"
proof (cases j)
  case (Pair jname jd)
  with assms that show thesis by (cases jd) (simp_all add: holds_info_def)
qed

lemma index_jobs_member:
  assumes "index_jobs pp pn js [] = Inr rp" and "r \<in> set rp"
  shows "\<exists>jname jm jes. (jname, Dir jm jes) \<in> set js \<and>
           map_of jes ''experiment_info.json'' \<noteq> None \<and>
           map_of r ''folder_name'' = Some (JStr jname) \<and>
           map_of r ''full_path'' = Some (JStr (joinpath pp jname)) \<and>
           map_of r ''sweep_parent'' = Some (JStr pn) \<and>
           map_of r ''job_number'' = Some (JStr jname)"
proof -
  let ?js = "filter holds_info js"
  from assms(2) obtain i where i: "i < length rp" "rp ! i = r"
    by (auto simp: in_set_conv_nth)
  from index_jobs_records[OF assms(1)] i have len: "i < length ?js"
    and f: "map_of r ''folder_name'' = Some (JStr (fst (?js ! i)))"
      "map_of r ''full_path'' = Some (JStr (joinpath pp (fst (?js ! i))))"
      "map_of r ''sweep_parent'' = Some (JStr pn)"
      "map_of r ''job_number'' = Some (JStr (fst (?js ! i)))"
    by (auto simp: list_all2_conv_all_nth)
  from len have mem: "?js ! i \<in> set ?js" by (rule nth_mem)
  then have "?js ! i \<in> set js" and "holds_info (?js ! i)" by simp_all
  then obtain jname jm jes where "?js ! i = (jname, Dir jm jes)"
    and "map_of jes ''experiment_info.json'' \<noteq> None"
    by (meson holds_infoD)
  with f \<open>?js ! i \<in> set js\<close> show ?thesis by auto
qed

lemma index_dirs_member:
  assumes "index_dirs es [] = Inr rs" and "r \<in> set rs" and "set es \<subseteq> set entries"
  shows "(\<exists>name m des. (name, Dir m des) \<in> set entries \<and>
            map_of des ''experiment_info.json'' \<noteq> None \<and>
            map_of r ''folder_name'' = Some (JStr name) \<and>
            map_of r ''full_path'' = Some (JStr (joinpath base_dir name)) \<and>
            (''sweep_parent'' \<in> fst ` set r) = (''sweep_parent'' \<in> set (doc_keys des)) \<and>
            (''job_number'' \<in> fst ` set r) = (''job_number'' \<in> set (doc_keys des))) \<or>
         (\<exists>pname pm pes jname jm jes. (pname, Dir pm pes) \<in> set entries \<and>
            map_of pes ''experiment_info.json'' = None \<and>
            (jname, Dir jm jes) \<in> set pes \<and> startswith jname ''job_'' \<and>
            map_of jes ''experiment_info.json'' \<noteq> None \<and>
            map_of r ''folder_name'' = Some (JStr jname) \<and>
            map_of r ''full_path'' = Some (JStr (joinpath (joinpath base_dir pname) jname)) \<and>
            map_of r ''sweep_parent'' = Some (JStr pname) \<and>
            map_of r ''job_number'' = Some (JStr jname))"
    (is "?regular \<or> ?nested")
  using assms
proof (induction es arbitrary: rs)
  case Nil
  then show ?case by simp
next
  case (Cons x es)
  obtain name nd where x: "x = (name, nd)" by (cases x)
  from Cons.prems(3) have sub: "set es \<subseteq> set entries" and mem: "(name, nd) \<in> set entries"
    by (auto simp: x)
  show ?case
  proof (cases nd)
    case (File c)
    with Cons.prems x have "index_dirs es [] = Inr rs" by simp
    from Cons.IH[OF this Cons.prems(2) sub] show ?thesis .
  next
    case (Dir m des)
    show ?thesis
    proof (cases "map_of des ''experiment_info.json'' = None")
      case True
      from index_dirs_sweep_parent[OF True] Cons.prems(1) obtain rp ra where
        rs: "rs = rp @ ra" and ra: "index_dirs es [] = Inr ra"
        and rp: "index_jobs (joinpath base_dir name) name (sorted_paths (job_dirs des)) [] = Inr rp"
        unfolding x Dir by blast
      from Cons.prems(2) rs consider "r \<in> set rp" | "r \<in> set ra" by auto
      then show ?thesis
      proof cases
        case 1
        from index_jobs_member[OF rp 1] obtain jname jm jes where
          j: "(jname, Dir jm jes) \<in> set (sorted_paths (job_dirs des))"
            "map_of jes ''experiment_info.json'' \<noteq> None"
            "map_of r ''folder_name'' = Some (JStr jname)"
            "map_of r ''full_path'' = Some (JStr (joinpath (joinpath base_dir name) jname))"
            "map_of r ''sweep_parent'' = Some (JStr name)"
            "map_of r ''job_number'' = Some (JStr jname)"
          by blast
        from j(1) have "(jname, Dir jm jes) \<in> set des" "startswith jname ''job_''"
          by (auto simp: sorted_paths_def job_dirs_def)
        with j True mem Dir have ?nested by blast
        then show ?thesis ..
      next
        case 2
        from Cons.IH[OF ra 2 sub] show ?thesis .
      qed
    next
      case False
      from Cons.prems(1) False obtain info where
        info: "extract_experiment_info (joinpath base_dir name) name des = Inr info"
        and "index_dirs es [info] = Inr rs"
        by (cases "extract_experiment_info (joinpath base_dir name) name des")
           (simp_all add: x Dir)
      then obtain rest where rest: "index_dirs es [] = Inr rest" and rs: "rs = info # rest"
        using index_dirs_acc[of es "[info]"] by (auto split: sum.splits)
      from Cons.prems(2) rs consider "r = info" | "r \<in> set rest" by auto
      then show ?thesis
      proof cases
        case 1
        from extract_experiment_info_fields[OF info] 1
        have "map_of r ''folder_name'' = Some (JStr name)"
          "map_of r ''full_path'' = Some (JStr (joinpath base_dir name))"
          "(''sweep_parent'' \<in> fst ` set r) = (''sweep_parent'' \<in> set (doc_keys des))"
          "(''job_number'' \<in> fst ` set r) = (''job_number'' \<in> set (doc_keys des))"
          by simp_all
        with False mem Dir have ?regular by blast
        then show ?thesis ..
      next
        case 2
        from Cons.IH[OF rest 2 sub] show ?thesis .
      qed
    qed
  qed
qed

text \<open>
  C10, as the claim states it, fails: a regular experiment, which is no job subdirectory
  of a sweep parent, yields a record that has \<open>sweep_parent\<close> and \<open>job_number\<close> when
  its results document has keys of these names.
\<close>

theorem regular_record_with_sweep_fields:
  "outputs tagged_world = Some (Dir 4000 [(''expA'', Dir 1000 tagged_entries)]) \<and>
   map_of tagged_entries ''experiment_info.json'' \<noteq> None \<and>
   job_dirs tagged_entries = [] \<and>
   fst (create_experiment_index literal_lib tagged_world) = Inr (DataFrame [tagged_record]) \<and>
   map_of tagged_record ''folder_name'' = Some (JStr ''expA'') \<and>
   map_of tagged_record ''sweep_parent'' = Some (JStr ''manual'') \<and>
   map_of tagged_record ''job_number'' = Some (JNum 7)"
  by (simp add: tagged_world_def tagged_entries_def tagged_record_def job_dirs_def startswith_def
        create_experiment_index_def iterdir_def to_csv_def extract_experiment_info_def
        json_load_def dict_update_def joinpath_def base_dir_def)

text \<open>
  C10, amended. Every record of a table the index builder returns comes from a
  directory in one of two ways. Either it is the record of a regular experiment, a
  subdirectory of the root with an info document: then its \<open>folder_name\<close> is the name
  of the directory and its \<open>full_path\<close> the path of the directory, whatever the
  documents say, and it has the field \<open>sweep_parent\<close> (\<open>job_number\<close>) exactly when the
  info or the results document of the directory has a key of that name. Or it is the
  record of a job subdirectory of a sweep parent: then \<open>folder_name\<close> and
  \<open>job_number\<close> are the name of the job subdirectory, \<open>full_path\<close> is its path and
  \<open>sweep_parent\<close> is the name of the parent.
\<close>

theorem index_record_fields:
  assumes "outputs w = Some (Dir m0 entries)"
    and "create_experiment_index lb w = (Inr df, w')"
    and "r \<in> set (rows df)"
  shows "(\<exists>name m des. (name, Dir m des) \<in> set entries \<and>
            map_of des ''experiment_info.json'' \<noteq> None \<and>
            map_of r ''folder_name'' = Some (JStr name) \<and>
            map_of r ''full_path'' = Some (JStr (joinpath base_dir name)) \<and>
            (''sweep_parent'' \<in> fst ` set r) = (''sweep_parent'' \<in> set (doc_keys des)) \<and>
            (''job_number'' \<in> fst ` set r) = (''job_number'' \<in> set (doc_keys des))) \<or>
         (\<exists>pname pm pes jname jm jes. (pname, Dir pm pes) \<in> set entries \<and>
            map_of pes ''experiment_info.json'' = None \<and>
            (jname, Dir jm jes) \<in> set pes \<and> startswith jname ''job_'' \<and>
            map_of jes ''experiment_info.json'' \<noteq> None \<and>
            map_of r ''folder_name'' = Some (JStr jname) \<and>
            map_of r ''full_path'' = Some (JStr (joinpath (joinpath base_dir pname) jname)) \<and>
            map_of r ''sweep_parent'' = Some (JStr pname) \<and>
            map_of r ''job_number'' = Some (JStr jname))"
proof -
  have "index_dirs entries [] = Inr (rows df)"
    by (rule create_experiment_index_rows[OF assms(2) assms(1)])
  from index_dirs_member[OF this assms(3) subset_refl] show ?thesis .
qed

theorem index_record_fields_witness:
  "outputs example_world = Some (Dir 4000 example_entries) \<and>
   fst (create_experiment_index literal_lib example_world) = Inr (DataFrame example_records) \<and>
   record_of ''expA'' (7 / 8) ''expA'' ''outputs/expA'' \<in> set (rows (DataFrame example_records)) \<and>
   map_of (record_of ''expA'' (7 / 8) ''expA'' ''outputs/expA'') ''sweep_parent'' = None \<and>
   ((\<exists>name m des. (name, Dir m des) \<in> set example_entries \<and>
       map_of des ''experiment_info.json'' \<noteq> None \<and>
       map_of (record_of ''expA'' (7 / 8) ''expA'' ''outputs/expA'') ''folder_name'' =
         Some (JStr name) \<and>
       (''sweep_parent'' \<in> fst ` set (record_of ''expA'' (7 / 8) ''expA'' ''outputs/expA'')) =
         (''sweep_parent'' \<in> set (doc_keys des))) \<or>
    (\<exists>pname pm pes. (pname, Dir pm pes) \<in> set example_entries \<and>
       map_of (record_of ''expA'' (7 / 8) ''expA'' ''outputs/expA'') ''sweep_parent'' =
         Some (JStr pname)))"
proof -
  let ?r = "record_of ''expA'' (7 / 8) ''expA'' ''outputs/expA''"
  have h1: "outputs example_world = Some (Dir 4000 example_entries)"
    by (simp add: example_world_def)
  obtain w' where h2:
    "create_experiment_index literal_lib example_world = (Inr (DataFrame example_records), w')"
    using example_index by (cases "create_experiment_index literal_lib example_world") simp
  have h3: "?r \<in> set (rows (DataFrame example_records))"
    by (simp add: DataFrame_def example_records_def)
  have none: "map_of ?r ''sweep_parent'' = None" by (simp add: record_of_def)
  from index_record_fields[OF h1 h2 h3]
  have "(\<exists>name m des. (name, Dir m des) \<in> set example_entries \<and>
       map_of des ''experiment_info.json'' \<noteq> None \<and>
       map_of ?r ''folder_name'' = Some (JStr name) \<and>
       (''sweep_parent'' \<in> fst ` set ?r) = (''sweep_parent'' \<in> set (doc_keys des))) \<or>
    (\<exists>pname pm pes. (pname, Dir pm pes) \<in> set example_entries \<and>
       map_of ?r ''sweep_parent'' = Some (JStr pname))"
    by (elim disjE exE conjE) blast+
  then show ?thesis using h1 example_index h3 none by (intro conjI)
qed

section \<open>Properties of the retention cleanup\<close>

lemma lookup_entry_print [simp]: "lookup_entry x (print fs w) = lookup_entry x w"
  by (simp add: lookup_entry_def print_def)

lemma lookup_entry_rmtree:
  "lookup_entry x (rmtree n w) = (if x = n then None else lookup_entry x w)"
  by (auto simp: lookup_entry_def rmtree_def delete_conv' split: option.splits node.splits)

text \<open>The loop only removes entries: a name that is absent stays absent.\<close>

lemma cleanup_loop_absent:
  assumes "cleanup_loop cutoff todo removed w = (r, w')" and "lookup_entry x w = None"
  shows "lookup_entry x w' = None"
  using assms
proof (induction todo arbitrary: removed w)
  case Nil
  then show ?case by simp
next
  case (Cons name rest)
  show ?case
  proof (cases "lookup_entry name w")
    case None
    with Cons show ?thesis by simp
  next
    case (Some nd)
    show ?thesis
    proof (cases nd)
      case (File c)
      with Cons Some show ?thesis by simp
    next
      case (Dir mtime es)
      show ?thesis
      proof (cases "mtime < cutoff")
        case False
        with Cons Some Dir show ?thesis by simp
      next
        case True
        show ?thesis
        proof (cases "keep_experiment es")
          case (Inl e)
          with Cons.prems Some Dir True show ?thesis by simp
        next
          case (Inr keep)
          show ?thesis
          proof (cases keep)
            case True
            with Cons.prems Some Dir \<open>mtime < cutoff\<close> Inr
            have "cleanup_loop cutoff rest removed
                    (print [Lit ''Keeping high-performing experiment: '', Lit name] w) = (r, w')"
              by simp
            from Cons.IH[OF this] Cons.prems(2) show ?thesis by simp
          next
            case False
            with Cons.prems Some Dir \<open>mtime < cutoff\<close> Inr
            have "cleanup_loop cutoff rest (removed + 1)
                    (rmtree name (print [Lit ''Removing old experiment: '', Lit name] w)) = (r, w')"
              by simp
            from Cons.IH[OF this] Cons.prems(2) show ?thesis by (simp add: lookup_entry_rmtree)
          qed
        qed
      qed
    qed
  qed
qed

text \<open>
  A directory that is young, or that its own \<^verbatim>\<open>results.json\<close> does not leave to be
  removed, is still there when the loop stops, however it stops.
\<close>

lemma cleanup_loop_keeps:
  assumes "cleanup_loop cutoff todo removed w = (r, w')"
    and "lookup_entry x w = Some (Dir m es)"
    and "\<not> (m < cutoff \<and> keep_experiment es = Inr False)"
  shows "lookup_entry x w' = Some (Dir m es)"
  using assms
proof (induction todo arbitrary: removed w)
  case Nil
  then show ?case by simp
next
  case (Cons name rest)
  show ?case
  proof (cases "lookup_entry name w")
    case None
    with Cons show ?thesis by simp
  next
    case (Some nd)
    show ?thesis
    proof (cases nd)
      case (File c)
      with Cons Some show ?thesis by simp
    next
      case (Dir mtime des)
      show ?thesis
      proof (cases "mtime < cutoff")
        case False
        with Cons Some Dir show ?thesis by simp
      next
        case True
        show ?thesis
        proof (cases "keep_experiment des")
          case (Inl e)
          with Cons.prems Some Dir True show ?thesis by simp
        next
          case (Inr keep)
          show ?thesis
          proof (cases keep)
            case True
            with Cons.prems Some Dir \<open>mtime < cutoff\<close> Inr
            have "cleanup_loop cutoff rest removed
                    (print [Lit ''Keeping high-performing experiment: '', Lit name] w) = (r, w')"
              by simp
            from Cons.IH[OF this] Cons.prems(2,3) show ?thesis by simp
          next
            case False
            with Cons.prems(2,3) Some Dir \<open>mtime < cutoff\<close> Inr have "x \<noteq> name" by auto
            from False Cons.prems Some Dir \<open>mtime < cutoff\<close> Inr
            have "cleanup_loop cutoff rest (removed + 1)
                    (rmtree name (print [Lit ''Removing old experiment: '', Lit name] w)) = (r, w')"
              by simp
            from Cons.IH[OF this] Cons.prems(2,3) \<open>x \<noteq> name\<close> show ?thesis
              by (simp add: lookup_entry_rmtree)
          qed
        qed
      qed
    qed
  qed
qed

text \<open>
  An aged directory that its own \<^verbatim>\<open>results.json\<close> does not protect is gone when the
  loop runs to its end.
\<close>

lemma cleanup_loop_removes:
  assumes "cleanup_loop cutoff todo removed w = (Inr n, w')"
    and "x \<in> set todo"
    and "lookup_entry x w = Some (Dir m es)"
    and "m < cutoff" and "keep_experiment es = Inr False"
  shows "lookup_entry x w' = None"
  using assms(1,2,3)
proof (induction todo arbitrary: removed w)
  case Nil
  then show ?case by simp
next
  case (Cons name rest)
  show ?case
  proof (cases "name = x")
    case True
    with Cons.prems assms(4,5)
    have run: "cleanup_loop cutoff rest (removed + 1)
            (rmtree x (print [Lit ''Removing old experiment: '', Lit x] w)) = (Inr n, w')"
      by simp
    have "lookup_entry x (rmtree x (print [Lit ''Removing old experiment: '', Lit x] w)) = None"
      by (simp add: lookup_entry_rmtree)
    from cleanup_loop_absent[OF run this] show ?thesis .
  next
    case False
    with Cons.prems(2) have mem: "x \<in> set rest" by simp
    show ?thesis
    proof (cases "lookup_entry name w")
      case None
      with Cons.prems have "cleanup_loop cutoff rest removed w = (Inr n, w')" by simp
      from Cons.IH[OF this mem Cons.prems(3)] show ?thesis .
    next
      case (Some nd)
      show ?thesis
      proof (cases nd)
        case (File c)
        with Cons.prems Some have "cleanup_loop cutoff rest removed w = (Inr n, w')" by simp
        from Cons.IH[OF this mem Cons.prems(3)] show ?thesis .
      next
        case (Dir mtime des)
        show ?thesis
        proof (cases "mtime < cutoff")
          case False
          with Cons.prems Some Dir have "cleanup_loop cutoff rest removed w = (Inr n, w')"
            by simp
          from Cons.IH[OF this mem Cons.prems(3)] show ?thesis .
        next
          case True
          show ?thesis
          proof (cases "keep_experiment des")
            case (Inl e)
            with Cons.prems Some Dir True show ?thesis by simp
          next
            case (Inr keep)
            show ?thesis
            proof (cases keep)
              case True
              with Cons.prems Some Dir \<open>mtime < cutoff\<close> Inr
              have run: "cleanup_loop cutoff rest removed
                      (print [Lit ''Keeping high-performing experiment: '', Lit name] w) =
                    (Inr n, w')"
                by simp
              show ?thesis by (rule Cons.IH[OF run mem]) (simp add: Cons.prems(3))
            next
              case False
              with Cons.prems Some Dir \<open>mtime < cutoff\<close> Inr
              have run: "cleanup_loop cutoff rest (removed + 1)
                      (rmtree name (print [Lit ''Removing old experiment: '', Lit name] w)) =
                    (Inr n, w')"
                by simp
              show ?thesis
                by (rule Cons.IH[OF run mem])
                   (simp add: lookup_entry_rmtree Cons.prems(3) \<open>name \<noteq> x\<close>[symmetric])
            qed
          qed
        qed
      qed
    qed
  qed
qed

text \<open>From the loop to the operation.\<close>

lemma cleanup_old_experiments_loop:
  assumes "outputs w = Some (Dir m0 entries)"
    and "cleanup_old_experiments keep_days w = (r, w')"
  obtains r0 w0 where
    "cleanup_loop (clock w - keep_days * 24 * 3600) (map fst entries) 0 w = (r0, w0)"
    and "lookup_entry x w' = lookup_entry x w0"
    and "r = Inr () \<Longrightarrow> \<exists>n. r0 = Inr n"
proof -
  obtain r0 w0 where
    run: "cleanup_loop (clock w - keep_days * 24 * 3600) (map fst entries) 0 w = (r0, w0)"
    by (cases "cleanup_loop (clock w - keep_days * 24 * 3600) (map fst entries) 0 w")
  with assms have "lookup_entry x w' = lookup_entry x w0" "r = Inr () \<Longrightarrow> \<exists>n. r0 = Inr n"
    by (auto simp: cleanup_old_experiments_def iterdir_def Let_def split: sum.splits)
  with run that show thesis by blast
qed

text \<open>The loop runs to its end when it can decide on every entry it meets.\<close>

lemma cleanup_loop_returns:
  assumes "\<forall>x \<in> set todo.
             case lookup_entry x w of
               Some (Dir mtime es) \<Rightarrow> cutoff \<le> mtime \<or> (\<exists>b. keep_experiment es = Inr b)
             | _ \<Rightarrow> True"
  shows "\<exists>n w'. cleanup_loop cutoff todo removed w = (Inr n, w')"
  using assms
proof (induction todo arbitrary: removed w)
  case Nil
  show ?case by simp
next
  case (Cons name rest)
  have later: "\<forall>x \<in> set rest.
             case lookup_entry x w2 of
               Some (Dir mtime es) \<Rightarrow> cutoff \<le> mtime \<or> (\<exists>b. keep_experiment es = Inr b)
             | _ \<Rightarrow> True"
    if "\<And>x. lookup_entry x w2 = lookup_entry x w \<or> lookup_entry x w2 = None" for w2
  proof
    fix x assume "x \<in> set rest"
    with Cons.prems have "case lookup_entry x w of
               Some (Dir mtime es) \<Rightarrow> cutoff \<le> mtime \<or> (\<exists>b. keep_experiment es = Inr b)
             | _ \<Rightarrow> True" by simp
    with that[of x] show "case lookup_entry x w2 of
               Some (Dir mtime es) \<Rightarrow> cutoff \<le> mtime \<or> (\<exists>b. keep_experiment es = Inr b)
             | _ \<Rightarrow> True" by auto
  qed
  have same: "\<exists>n w'. cleanup_loop cutoff rest k w = (Inr n, w')" for k
    by (rule Cons.IH) (rule later, simp)
  show ?case
  proof (cases "lookup_entry name w")
    case None
    with same show ?thesis by simp
  next
    case (Some nd)
    show ?thesis
    proof (cases nd)
      case (File c)
      with Some same show ?thesis by simp
    next
      case (Dir mtime es)
      show ?thesis
      proof (cases "mtime < cutoff")
        case False
        with Some Dir same show ?thesis by simp
      next
        case True
        with Cons.prems Some Dir obtain b where b: "keep_experiment es = Inr b" by auto
        show ?thesis
        proof (cases b)
          case True
          have "\<exists>n w'. cleanup_loop cutoff rest removed
                  (print [Lit ''Keeping high-performing experiment: '', Lit name] w) = (Inr n, w')"
            by (rule Cons.IH) (rule later, simp)
          with Some Dir \<open>mtime < cutoff\<close> b True show ?thesis by simp
        next
          case False
          have "\<exists>n w'. cleanup_loop cutoff rest (removed + 1)
                  (rmtree name (print [Lit ''Removing old experiment: '', Lit name] w)) = (Inr n, w')"
            by (rule Cons.IH) (rule later, simp add: lookup_entry_rmtree)
          with Some Dir \<open>mtime < cutoff\<close> b False show ?thesis by simp
        qed
      qed
    qed
  qed
qed

lemma cleanup_old_experiments_returns:
  assumes "outputs w = Some (Dir m0 entries)"
    and "list_all (checkable_entry (clock w - keep_days * 24 * 3600)) entries"
  shows "\<exists>w'. cleanup_old_experiments keep_days w = (Inr (), w')"
proof -
  let ?cutoff = "clock w - keep_days * 24 * 3600"
  have "\<forall>x \<in> set (map fst entries).
             case lookup_entry x w of
               Some (Dir mtime es) \<Rightarrow> ?cutoff \<le> mtime \<or> (\<exists>b. keep_experiment es = Inr b)
             | _ \<Rightarrow> True"
  proof
    fix x assume "x \<in> set (map fst entries)"
    show "case lookup_entry x w of
               Some (Dir mtime es) \<Rightarrow> ?cutoff \<le> mtime \<or> (\<exists>b. keep_experiment es = Inr b)
             | _ \<Rightarrow> True"
    proof (cases "map_of entries x")
      case None
      with assms(1) show ?thesis by (simp add: lookup_entry_def)
    next
      case (Some nd)
      then have "(x, nd) \<in> set entries" by (rule map_of_SomeD)
      with assms(2) have "checkable_entry ?cutoff (x, nd)" by (simp add: list_all_iff)
      with Some assms(1) show ?thesis
        by (cases nd) (auto simp: lookup_entry_def checkable_entry_def split: sum.splits)
    qed
  qed
  from cleanup_loop_returns[OF this, of 0] obtain n w0 where
    "cleanup_loop ?cutoff (map fst entries) 0 w = (Inr n, w0)" by blast
  with assms(1) show ?thesis
    by (simp add: cleanup_old_experiments_def iterdir_def)
qed

subsection \<open>Claim C2\<close>

text \<open>
  C2, as the claim states it, fails at the threshold itself: an experiment directory older
  than the cutoff whose \<^verbatim>\<open>results.json\<close> reports \<^verbatim>\<open>"best_accuracy": 0.9\<close>, a value
  greater than or equal to 0.9, is removed.
\<close>

theorem cleanup_removes_at_threshold:
  "outputs threshold_world = Some (Dir 4000 [(''expA'', experiment_dir 1000 ''expA'' float_0_9)]) \<and>
   (1000 :: rat) < clock threshold_world - 30 * 24 * 3600 \<and>
   keep_experiment [(''results.json'',
       File (Json_text (JObject [(''best_accuracy'', JNum float_0_9)])))] = Inr False \<and>
   9 / 10 \<le> float_0_9 \<and>
   cleanup_old_experiments 30 threshold_world =
     (Inr (),
      \<lparr>outputs = Some (Dir 4000 []), clock = 30 * 24 * 3600 + 5000,
       stdout = [Print [Lit ''Removing old experiment: '', Lit ''expA''],
                 Print [Lit ''Removed '', Num 1, Lit '' old experiments'']]\<rparr>)"
  by (simp add: threshold_world_def experiment_dir_def cleanup_old_experiments_def iterdir_def
        lookup_entry_def keep_experiment_def json_load_def rmtree_def print_def float_0_9_def
        AList.delete_eq)

lemma cleanup_threshold_of_run:
  assumes "outputs w = Some (Dir m0 entries)"
    and "map_of entries name = Some (Dir mtime es)"
    and "mtime < clock w - keep_days * 24 * 3600"
    and "map_of es ''results.json'' = Some (File (Json_text (JObject results)))"
    and "map_of results ''best_accuracy'' = Some v"
    and "number_value v = Some acc"
    and "cleanup_old_experiments keep_days w = (r, w')"
  shows "(float_0_9 < acc \<longrightarrow> lookup_entry name w' = Some (Dir mtime es)) \<and>
         (acc \<le> float_0_9 \<and> r = Inr () \<longrightarrow> lookup_entry name w' = None)"
proof -
  let ?cutoff = "clock w - keep_days * 24 * 3600"
  have keep: "keep_experiment es = Inr (float_0_9 < acc)"
    using assms(4,5,6) by (cases v) (simp_all add: keep_experiment_def json_load_def)
  have here: "lookup_entry name w = Some (Dir mtime es)"
    using assms(1,2) by (simp add: lookup_entry_def)
  have listed: "name \<in> set (map fst entries)"
    using map_of_SomeD[OF assms(2)] by force
  from cleanup_old_experiments_loop[OF assms(1,7), of name] obtain r0 w0 where
    run: "cleanup_loop ?cutoff (map fst entries) 0 w = (r0, w0)"
    and same: "lookup_entry name w' = lookup_entry name w0"
    and ended: "r = Inr () \<Longrightarrow> \<exists>n. r0 = Inr n"
    by blast
  show ?thesis
  proof (intro conjI impI)
    assume "float_0_9 < acc"
    with keep have "\<not> (mtime < ?cutoff \<and> keep_experiment es = Inr False)" by simp
    from cleanup_loop_keeps[OF run here this] same
    show "lookup_entry name w' = Some (Dir mtime es)" by simp
  next
    assume a: "acc \<le> float_0_9 \<and> r = Inr ()"
    with ended obtain n where "r0 = Inr n" by blast
    with run have run': "cleanup_loop ?cutoff (map fst entries) 0 w = (Inr n, w0)" by simp
    from a keep have "keep_experiment es = Inr False" by simp
    from cleanup_loop_removes[OF run' listed here assms(3) this] same
    show "lookup_entry name w' = None" by simp
  qed
qed

text \<open>
  C2, amended. Let a subdirectory of the root be older than the cutoff and let its
  \<^verbatim>\<open>results.json\<close> be an object whose \<open>best_accuracy\<close> is a number, an integer or
  a float. If the number is greater than the double \<^verbatim>\<open>0.9\<close>, the directory is still
  there, unchanged, after the cleanup, however the cleanup ends. If the number is at most
  that double, \<^verbatim>\<open>0.9\<close> itself included, and the cleanup can decide on every entry
  of the root, the cleanup runs to its end and the directory is gone.
\<close>

theorem cleanup_keeps_above_threshold:
  assumes "outputs w = Some (Dir m0 entries)"
    and "map_of entries name = Some (Dir mtime es)"
    and "mtime < clock w - keep_days * 24 * 3600"
    and "map_of es ''results.json'' = Some (File (Json_text (JObject results)))"
    and "map_of results ''best_accuracy'' = Some v"
    and "number_value v = Some acc"
  shows "(float_0_9 < acc \<longrightarrow>
            lookup_entry name (snd (cleanup_old_experiments keep_days w)) =
              Some (Dir mtime es)) \<and>
         (acc \<le> float_0_9 \<and>
          list_all (checkable_entry (clock w - keep_days * 24 * 3600)) entries \<longrightarrow>
            fst (cleanup_old_experiments keep_days w) = Inr () \<and>
            lookup_entry name (snd (cleanup_old_experiments keep_days w)) = None)"
proof -
  have kept: "lookup_entry name (snd (cleanup_old_experiments keep_days w)) = Some (Dir mtime es)"
    if "float_0_9 < acc"
  proof -
    obtain r w' where run: "cleanup_old_experiments keep_days w = (r, w')"
      by (cases "cleanup_old_experiments keep_days w")
    from cleanup_threshold_of_run[OF assms run] that show ?thesis by (simp add: run)
  qed
  have gone: "fst (cleanup_old_experiments keep_days w) = Inr () \<and>
        lookup_entry name (snd (cleanup_old_experiments keep_days w)) = None"
    if "acc \<le> float_0_9"
      and "list_all (checkable_entry (clock w - keep_days * 24 * 3600)) entries"
  proof -
    from cleanup_old_experiments_returns[OF assms(1) that(2)] obtain w' where
      run: "cleanup_old_experiments keep_days w = (Inr (), w')" by blast
    from cleanup_threshold_of_run[OF assms run] that(1) show ?thesis by (simp add: run)
  qed
  from kept gone show ?thesis by blast
qed

lemma retention_run:
  "cleanup_old_experiments 30 retention_world =
     (Inr (),
      \<lparr>outputs = Some (Dir 4000 [(''good'', experiment_dir 1000 ''good'' (15 / 16))]),
       clock = 30 * 24 * 3600 + 5000,
       stdout = [Print [Lit ''Keeping high-performing experiment: '', Lit ''good''],
                 Print [Lit ''Removing old experiment: '', Lit ''poor''],
                 Print [Lit ''Removed '', Num 1, Lit '' old experiments'']]\<rparr>)"
  by (simp add: retention_world_def retention_entries_def experiment_dir_def
        cleanup_old_experiments_def iterdir_def
        lookup_entry_def keep_experiment_def json_load_def rmtree_def print_def float_0_9_def
        AList.delete_eq)

theorem cleanup_keeps_above_threshold_witness:
  "outputs retention_world = Some (Dir 4000 retention_entries) \<and>
   map_of retention_entries ''good'' = Some (experiment_dir 1000 ''good'' (15 / 16)) \<and>
   map_of retention_entries ''poor'' = Some (experiment_dir 1000 ''poor'' (7 / 8)) \<and>
   (1000 :: rat) < clock retention_world - 30 * 24 * 3600 \<and>
   float_0_9 < 15 / 16 \<and> 7 / 8 \<le> float_0_9 \<and>
   list_all (checkable_entry (clock retention_world - 30 * 24 * 3600)) retention_entries \<and>
   fst (cleanup_old_experiments 30 retention_world) = Inr () \<and>
   lookup_entry ''good'' (snd (cleanup_old_experiments 30 retention_world)) =
     Some (experiment_dir 1000 ''good'' (15 / 16)) \<and>
   lookup_entry ''poor'' (snd (cleanup_old_experiments 30 retention_world)) = None"
proof -
  let ?info = "\<lambda>name. (''experiment_info.json'',
         File (Json_text (JObject [(''name'', JStr name), (''model'', JStr ''r18''),
                                   (''dataset'', JStr ''c10'')])))"
  let ?res = "\<lambda>acc. (''results.json'', File (Json_text (JObject [(''best_accuracy'', JNum acc)])))"
  have h1: "outputs retention_world = Some (Dir 4000 retention_entries)"
    by (simp add: retention_world_def)
  have good: "map_of retention_entries ''good'' = Some (Dir 1000 [?info ''good'', ?res (15 / 16)])"
    by (simp add: retention_entries_def experiment_dir_def)
  have poor: "map_of retention_entries ''poor'' = Some (Dir 1000 [?info ''poor'', ?res (7 / 8)])"
    by (simp add: retention_entries_def experiment_dir_def)
  have old: "(1000 :: rat) < clock retention_world - 30 * 24 * 3600"
    by (simp add: retention_world_def)
  have res: "map_of [?info n, ?res a] ''results.json'' =
      Some (File (Json_text (JObject [(''best_accuracy'', JNum a)])))" for n a
    by simp
  have acc: "map_of [(''best_accuracy'', JNum a)] ''best_accuracy'' = Some (JNum a)" for a
    by simp
  have num: "number_value (JNum a) = Some a" for a
    by simp
  have above: "float_0_9 < 15 / 16" and below: "7 / 8 \<le> float_0_9"
    by (simp_all add: float_0_9_def)
  have decided: "list_all (checkable_entry (clock retention_world - 30 * 24 * 3600))
      retention_entries"
    by (simp add: retention_entries_def experiment_dir_def checkable_entry_def
          keep_experiment_def json_load_def)
  from cleanup_keeps_above_threshold[OF h1 good old res acc num] above
  have kept: "lookup_entry ''good'' (snd (cleanup_old_experiments 30 retention_world)) =
      Some (experiment_dir 1000 ''good'' (15 / 16))"
    by (simp add: experiment_dir_def)
  from cleanup_keeps_above_threshold[OF h1 poor old res acc num] below decided
  have gone: "fst (cleanup_old_experiments 30 retention_world) = Inr () \<and>
      lookup_entry ''poor'' (snd (cleanup_old_experiments 30 retention_world)) = None"
    by simp
  show ?thesis
    using h1 good poor old above below decided kept gone by (simp add: experiment_dir_def)
qed

subsection \<open>Claim C3\<close>

lemma cleanup_nested_of_run:
  assumes "outputs w = Some (Dir m0 entries)"
    and "map_of entries name = Some (Dir mtime es)"
    and "mtime < clock w - keep_days * 24 * 3600"
    and "map_of es ''results.json'' = None"
    and "cleanup_old_experiments keep_days w = (Inr (), w')"
  shows "keep_experiment es = Inr False \<and> lookup_entry name w' = None"
proof -
  let ?cutoff = "clock w - keep_days * 24 * 3600"
  have keep: "keep_experiment es = Inr False"
    using assms(4) by (simp add: keep_experiment_def)
  have here: "lookup_entry name w = Some (Dir mtime es)"
    using assms(1,2) by (simp add: lookup_entry_def)
  have listed: "name \<in> set (map fst entries)"
    using map_of_SomeD[OF assms(2)] by force
  from cleanup_old_experiments_loop[OF assms(1,5), of name] obtain n w0 where
    run: "cleanup_loop ?cutoff (map fst entries) 0 w = (Inr n, w0)"
    and same: "lookup_entry name w' = lookup_entry name w0"
    by blast
  from cleanup_loop_removes[OF run listed here assms(3) keep] same keep
  show ?thesis by simp
qed

text \<open>
  C3. The cleanup decides on a subdirectory of the root from its modification time and
  from the \<^verbatim>\<open>results.json\<close> entry directly inside it, and from nothing else: a
  subdirectory older than the cutoff that has no such entry is not protected. When the
  cleanup can decide on every entry of the root, it runs to its end and such a
  subdirectory is gone, with everything below it. This holds whatever the subdirectory
  contains, so for a sweep parent whose job subdirectories report a \<open>best_accuracy\<close>
  above 0.9 and for a directory such as \<^verbatim>\<open>shortcuts\<close>.
\<close>

theorem cleanup_ignores_nested_results:
  assumes "outputs w = Some (Dir m0 entries)"
    and "map_of entries name = Some (Dir mtime es)"
    and "mtime < clock w - keep_days * 24 * 3600"
    and "map_of es ''results.json'' = None"
    and "list_all (checkable_entry (clock w - keep_days * 24 * 3600)) entries"
  shows "\<exists>w'. cleanup_old_experiments keep_days w = (Inr (), w') \<and>
              keep_experiment es = Inr False \<and> lookup_entry name w' = None"
proof -
  from cleanup_old_experiments_returns[OF assms(1,5)] obtain w' where
    run: "cleanup_old_experiments keep_days w = (Inr (), w')" by blast
  from cleanup_nested_of_run[OF assms(1-4) run] run show ?thesis by blast
qed

lemma aged_run:
  "cleanup_old_experiments 30 aged_world =
     (Inr (),
      \<lparr>outputs = Some (Dir 4000 []), clock = 30 * 24 * 3600 + 5000,
       stdout = [Print [Lit ''Removing old experiment: '', Lit ''sweepB''],
                 Print [Lit ''Removing old experiment: '', Lit ''expA''],
                 Print [Lit ''Removed '', Num 2, Lit '' old experiments'']]\<rparr>)"
  by (simp add: aged_world_def example_world_def example_entries_def sweepB_entries_def
        experiment_dir_def cleanup_old_experiments_def iterdir_def
        lookup_entry_def keep_experiment_def json_load_def rmtree_def print_def float_0_9_def
        AList.delete_eq)

theorem cleanup_ignores_nested_results_witness:
  "outputs aged_world = Some (Dir 4000 example_entries) \<and>
   map_of example_entries ''sweepB'' = Some (Dir 3000 sweepB_entries) \<and>
   (3000 :: rat) < clock aged_world - 30 * 24 * 3600 \<and>
   map_of sweepB_entries ''results.json'' = None \<and>
   list_all (checkable_entry (clock aged_world - 30 * 24 * 3600)) example_entries \<and>
   map_of sweepB_entries ''job_1'' = Some (experiment_dir 2000 ''b1'' (15 / 16)) \<and>
   keep_experiment [(''results.json'',
       File (Json_text (JObject [(''best_accuracy'', JNum (15 / 16))])))] = Inr True \<and>
   fst (cleanup_old_experiments 30 aged_world) = Inr () \<and>
   lookup_entry ''sweepB'' (snd (cleanup_old_experiments 30 aged_world)) = None"
proof -
  have h1: "outputs aged_world = Some (Dir 4000 example_entries)"
    by (simp add: aged_world_def example_world_def)
  have h2: "map_of example_entries ''sweepB'' = Some (Dir 3000 sweepB_entries)"
    by (simp add: example_entries_def)
  have h3: "(3000 :: rat) < clock aged_world - 30 * 24 * 3600"
    by (simp add: aged_world_def)
  have h4: "map_of sweepB_entries ''results.json'' = None"
    by (simp add: sweepB_entries_def)
  have h5: "list_all (checkable_entry (clock aged_world - 30 * 24 * 3600)) example_entries"
    by (simp add: example_entries_def experiment_dir_def checkable_entry_def
          keep_experiment_def json_load_def h4)
  have job: "map_of sweepB_entries ''job_1'' = Some (experiment_dir 2000 ''b1'' (15 / 16))"
    by (simp add: sweepB_entries_def)
  have high: "keep_experiment [(''results.json'',
       File (Json_text (JObject [(''best_accuracy'', JNum (15 / 16))])))] = Inr True"
    by (simp add: keep_experiment_def json_load_def float_0_9_def)
  from cleanup_ignores_nested_results[OF h1 h2 h3 h4 h5] obtain w' where
    "cleanup_old_experiments 30 aged_world = (Inr (), w')" "lookup_entry ''sweepB'' w' = None"
    by blast
  then have "fst (cleanup_old_experiments 30 aged_world) = Inr ()"
    "lookup_entry ''sweepB'' (snd (cleanup_old_experiments 30 aged_world)) = None"
    by simp_all
  with h1 h2 h3 h4 h5 job high show ?thesis by (intro conjI)
qed

section \<open>Properties of the ranking\<close>


lemma sort_desc_length [simp]: "length (sort_desc f xs) = length xs"
  by (simp add: sort_desc_def)



















lemma halvings_exact: "halvings 9007199254740992 = 1"
  by (simp add: halvings.simps)

lemma halvings_rounds: "halvings 9007199254740993 = 1"
  by (simp add: halvings.simps)

lemma float64_of_int_exact: "float64_of_int 9007199254740992 = 9007199254740992"
  by (simp add: float64_of_int_def halvings_exact)

lemma float64_of_int_rounds: "float64_of_int 9007199254740993 = 9007199254740992"
  by (simp add: float64_of_int_def halvings_rounds)





lemma rounding_stored:
  "map (\<lambda>r. stored_value Dt_float64 (map_of r ''best_accuracy'')) rounding_records =
     [Some 9007199254740992, Some 9007199254740992, None]"
  by (simp add: rounding_records_def counted_record_def float64_of_int_exact
        float64_of_int_rounds)

lemma last_stdout_print [simp]: "last (stdout (print fs w)) = Print fs"
  by (simp add: print_def)

lemma last_stdout_print_table [simp]: "last (stdout (print_table t w)) = Print_table t"
  by (simp add: print_table_def)



subsection \<open>Claim C8\<close>




section \<open>Properties of the command line and of the queries\<close>


subsection \<open>Claim C1\<close>

text \<open>
  C1. The command \<^verbatim>\<open>shortcuts\<close> calls \<^verbatim>\<open>organizer.create_shortcuts()\<close>, and the class
  has no method of that name: the call raises AttributeError before anything is read,
  cleared, created or printed, whatever the root holds and whatever arguments follow,
  and the process ends with status 1.
\<close>

theorem shortcuts_command_raises:
  "main lb (prog # ''shortcuts'' # rest) w = (Inl AttributeError, w) \<and>
   exit_status (fst (main lb (prog # ''shortcuts'' # rest) w)) = 1"
  by (simp add: main_def call_method_def organizer_methods_def exit_status_def)

subsection \<open>Claim C4\<close>

text \<open>
  C4, as the claim states it, fails: on the example root, where no index file has been
  written yet, each of the three queries raises FileNotFoundError.
\<close>

theorem queries_raise_without_index:
  "lookup_entry ''experiment_index.csv'' example_world = None \<and>
   find_experiments [] example_world = Inl FileNotFoundError \<and>
   list_sweeps example_world = (Inl FileNotFoundError, example_world) \<and>
   analyze_sweep ''sweepB'' example_world = (Inl FileNotFoundError, example_world)"
  by (simp add: lookup_entry_def example_world_def example_entries_def find_experiments_def
        list_sweeps_def analyze_sweep_def read_csv_def)

text \<open>
  C4, amended. When the root directory has no entry \<^verbatim>\<open>experiment_index.csv\<close>, or does
  not exist itself, every query that reloads the index (the filter by field values, the
  list of sweeps, the analysis of one sweep) raises FileNotFoundError, whatever its
  arguments, and changes neither the tree nor the output: none of them takes the missing
  index for an empty one.
\<close>

theorem queries_need_index:
  assumes "outputs w = None \<or>
           (\<exists>m es. outputs w = Some (Dir m es) \<and> map_of es ''experiment_index.csv'' = None)"
  shows "find_experiments filters w = Inl FileNotFoundError \<and>
         list_sweeps w = (Inl FileNotFoundError, w) \<and>
         analyze_sweep sweep_name w = (Inl FileNotFoundError, w)"
proof -
  have "read_csv w = Inl FileNotFoundError" using assms by (auto simp: read_csv_def)
  then show ?thesis by (simp add: find_experiments_def list_sweeps_def analyze_sweep_def)
qed

theorem queries_need_index_witness:
  "outputs example_world = Some (Dir 4000 example_entries) \<and>
   map_of example_entries ''experiment_index.csv'' = None \<and>
   find_experiments [(''model'', JStr ''r18'')] example_world = Inl FileNotFoundError \<and>
   list_sweeps example_world = (Inl FileNotFoundError, example_world) \<and>
   analyze_sweep ''sweepB'' example_world = (Inl FileNotFoundError, example_world)"
proof -
  have h1: "outputs example_world = Some (Dir 4000 example_entries)"
    by (simp add: example_world_def)
  have h2: "map_of example_entries ''experiment_index.csv'' = None"
    by (simp add: example_entries_def)
  have h: "outputs example_world = None \<or>
           (\<exists>m es. outputs example_world = Some (Dir m es) \<and>
                   map_of es ''experiment_index.csv'' = None)"
    using h1 h2 by blast
  from queries_need_index[OF h, of "[(''model'', JStr ''r18'')]" "''sweepB''"] h1 h2
  show ?thesis by (intro conjI) simp_all
qed

subsection \<open>Claim C5\<close>

text \<open>
  C5, as the claim states it, fails: an unknown command, and \<^verbatim>\<open>cd\<close> without its
  argument, print a line that is not the usage message, and the process ends with
  status 0.
\<close>

theorem unknown_command_exits_zero:
  "main literal_lib [''experiment_tracker.py'', ''frobnicate''] example_world =
     (Inr (), print [Lit ''Unknown command: '', Lit ''frobnicate''] example_world) \<and>
   exit_status (fst (main literal_lib [''experiment_tracker.py'', ''frobnicate''] example_world)) = 0 \<and>
   main literal_lib [''experiment_tracker.py'', ''cd''] example_world =
     (Inr (), print [Lit ''Unknown command: '', Lit ''cd''] example_world) \<and>
   exit_status (fst (main literal_lib [''experiment_tracker.py'', ''cd''] example_world)) = 0 \<and>
   stdout (print [Lit ''Unknown command: '', Lit ''cd''] example_world) \<noteq>
     stdout (print [Lit usage] example_world)"
  by (simp add: main_def exit_status_def print_def)

text \<open>
  C5, amended. When the first argument is none of the seven commands, or is \<^verbatim>\<open>cd\<close> or
  \<^verbatim>\<open>analyze_sweep\<close> with no argument after it, the program prints
  \<^verbatim>\<open>Unknown command: <command>\<close>, does nothing else, and ends with status 0. It prints
  the usage message and exits with status 1 when it is given no command at all.
\<close>

theorem unknown_command_reported:
  assumes "command \<notin> set [''list'', ''find_best'', ''cd'', ''cleanup'', ''shortcuts'', ''sweeps'',
                            ''analyze_sweep''] \<or>
           (command \<in> set [''cd'', ''analyze_sweep''] \<and> rest = [])"
  shows "main lb (prog # command # rest) w =
           (Inr (), print [Lit ''Unknown command: '', Lit command] w) \<and>
         exit_status (fst (main lb (prog # command # rest) w)) = 0 \<and>
         main lb [prog] w = (Inl (SystemExit 1), print [Lit usage] w) \<and>
         main lb [] w = (Inl (SystemExit 1), print [Lit usage] w) \<and>
         exit_status (Inl (SystemExit 1)) = 1"
proof -
  have run: "main lb (prog # command # rest) w =
      (Inr (), print [Lit ''Unknown command: '', Lit command] w)"
    using assms by (auto simp: main_def)
  have none: "main lb [prog] w = (Inl (SystemExit 1), print [Lit usage] w)"
    "main lb [] w = (Inl (SystemExit 1), print [Lit usage] w)"
    by (simp_all add: main_def)
  show ?thesis unfolding run using none by (simp add: exit_status_def)
qed

theorem unknown_command_reported_witness:
  "(''frobnicate'' \<notin> set [''list'', ''find_best'', ''cd'', ''cleanup'', ''shortcuts'', ''sweeps'',
                            ''analyze_sweep'']) \<and>
   (''analyze_sweep'' \<in> set [''cd'', ''analyze_sweep'']) \<and>
   main literal_lib [''experiment_tracker.py'', ''frobnicate'', ''now''] example_world =
     (Inr (), print [Lit ''Unknown command: '', Lit ''frobnicate''] example_world) \<and>
   main literal_lib [''experiment_tracker.py'', ''analyze_sweep''] example_world =
     (Inr (), print [Lit ''Unknown command: '', Lit ''analyze_sweep''] example_world) \<and>
   main literal_lib [''experiment_tracker.py''] example_world =
     (Inl (SystemExit 1), print [Lit usage] example_world)"
proof -
  have a: "''frobnicate'' \<notin> set [''list'', ''find_best'', ''cd'', ''cleanup'', ''shortcuts'',
                                   ''sweeps'', ''analyze_sweep'']"
    by simp
  have b: "''analyze_sweep'' \<in> set [''cd'', ''analyze_sweep'']" by simp
  from unknown_command_reported[of "''frobnicate''" "[''now'']" literal_lib
      "''experiment_tracker.py''" example_world] a
  have 1: "main literal_lib [''experiment_tracker.py'', ''frobnicate'', ''now''] example_world =
     (Inr (), print [Lit ''Unknown command: '', Lit ''frobnicate''] example_world)"
    and 3: "main literal_lib [''experiment_tracker.py''] example_world =
     (Inl (SystemExit 1), print [Lit usage] example_world)"
    by blast+
  from unknown_command_reported[of "''analyze_sweep''" "[]" literal_lib
      "''experiment_tracker.py''" example_world] b
  have 2: "main literal_lib [''experiment_tracker.py'', ''analyze_sweep''] example_world =
     (Inr (), print [Lit ''Unknown command: '', Lit ''analyze_sweep''] example_world)"
    by blast
  show ?thesis using a b 1 2 3 by (intro conjI)
qed

subsection \<open>Claim C6\<close>






subsection \<open>Claim C9\<close>

text \<open>
  C9. On a root without any experiment the table has no column, and \<^verbatim>\<open>quick_cd\<close>
  raises KeyError at \<^verbatim>\<open>df['folder_name']\<close> where the claim has it report that nothing
  matched; the command \<^verbatim>\<open>cd\<close> ends with status 1. This is so for every search of
  line 213, regular expression or not.
\<close>

theorem quick_cd_empty_index_raises:
  "quick_cd lb partial_name empty_world =
     (Inl KeyError,
      \<lparr>outputs = Some (Dir 4000 [(''experiment_index.csv'',
                                  File (Csv_text (csv_round_trip lb (DataFrame []))))]),
       clock = 5000,
       stdout = [Print [Lit ''Created experiment index with '', Num 0, Lit '' experiments'']]\<rparr>) \<and>
   main lb [prog, ''cd'', partial_name] empty_world = quick_cd lb partial_name empty_world \<and>
   exit_status (fst (quick_cd lb partial_name empty_world)) = 1"
  by (simp add: quick_cd_def main_def empty_world_def create_experiment_index_def iterdir_def
        to_csv_def DataFrame_def union_keys_def print_def exit_status_def)

end
